theory Spec2Isabelle
  imports Complex_Main "HOL-Library.Word"
begin

unbundle bit_operations_syntax

section \<open>The scene of SmallVCM: \<open>src/scene.hxx\<close>\<close>

text \<open>
  The class \<open>Scene\<close> of \<open>scene.hxx\<close> is embedded function by function. The headers it
  includes (\<open>math.hxx\<close>, \<open>geometry.hxx\<close>, \<open>camera.hxx\<close>, \<open>materials.hxx\<close>,
  \<open>lights.hxx\<close>) are not part of the development: the data they declare is represented
  as far as \<open>scene.hxx\<close> shows it, and the function bodies they hold are parameters,
  collected in the record \<open>externals\<close>.
\<close>

subsection \<open>Numbers\<close>

text \<open>
  The C++ \<open>int\<close> is a 32-bit word, read as two's complement by \<open>sint\<close>; \<open>uint\<close> is a
  32-bit word read by \<open>unat\<close>; \<open>size_t\<close> is a 64-bit word.
\<close>

type_synonym int32 = "32 word"
type_synonym uint = "32 word"
type_synonym size_t = "64 word"

text \<open>
  A \<open>float\<close> is an IEEE 754 binary32 number: a finite value, an infinity or a NaN. A
  finite value is a real number; the values that binary32 holds are the integers below
  \<open>2^24\<close> in absolute value times a power of two from \<open>2^-149\<close> up, and every operation
  returns one of them. The sign of zero and the payload of a NaN are not represented.
\<close>

datatype float = Fin real | PInf | NInf | NaN

definition finf :: "bool \<Rightarrow> float" where
  "finf negative = (if negative then NInf else PInf)"

text \<open>
  Rounding to the nearest binary32 number, ties to the even significand. The last place
  of \<open>x\<close> has the exponent of \<open>x\<close> less 23, and never less than \<open>-149\<close>, where the
  subnormal numbers begin. A result of \<open>2^128\<close> or more in absolute value is an infinity.
\<close>

definition round_even :: "real \<Rightarrow> int" where
  "round_even y =
     (let f = \<lfloor>y\<rfloor>; d = y - of_int f
      in if d < 1 / 2 then f else if 1 / 2 < d then f + 1 else if even f then f else f + 1)"

definition ulp_exponent :: "real \<Rightarrow> int" where
  "ulp_exponent x = max (\<lfloor>log 2 \<bar>x\<bar>\<rfloor> - 23) (- 149)"

definition rnd :: "real \<Rightarrow> float" where
  "rnd x =
     (if x = 0 then Fin 0
      else let e = ulp_exponent x;
               y = of_int (round_even (x / 2 powi e)) * 2 powi e
           in if 2 ^ 128 \<le> \<bar>y\<bar> then finf (x < 0) else Fin y)"

text \<open>A literal such as \<open>0.8f\<close> or \<open>1e36f\<close> is the binary32 number nearest to it.\<close>

definition flit :: "real \<Rightarrow> float" where
  "flit x = rnd x"

text \<open>
  The operations. Each one computes in \<open>float\<close>, as the code does when every
  intermediate result is held in binary32: the exact result of two finite operands is
  rounded, and the special values follow IEEE 754. A non-zero finite number divided by
  zero is an infinity and no trap is raised.
\<close>

fun fneg :: "float \<Rightarrow> float" where
  "fneg (Fin a) = Fin (- a)"
| "fneg PInf = NInf"
| "fneg NInf = PInf"
| "fneg NaN = NaN"

fun fadd :: "float \<Rightarrow> float \<Rightarrow> float" where
  "fadd (Fin a) (Fin b) = rnd (a + b)"
| "fadd NaN _ = NaN"
| "fadd _ NaN = NaN"
| "fadd PInf NInf = NaN"
| "fadd NInf PInf = NaN"
| "fadd PInf _ = PInf"
| "fadd _ PInf = PInf"
| "fadd NInf _ = NInf"
| "fadd _ NInf = NInf"

definition fsub :: "float \<Rightarrow> float \<Rightarrow> float" where
  "fsub a b = fadd a (fneg b)"

text \<open>The sign of a float that is not NaN: \<open>True\<close> for negative. Zero counts as positive.\<close>

fun fsignbit :: "float \<Rightarrow> bool" where
  "fsignbit (Fin a) = (a < 0)"
| "fsignbit PInf = False"
| "fsignbit NInf = True"
| "fsignbit NaN = False"

fun fmul :: "float \<Rightarrow> float \<Rightarrow> float" where
  "fmul (Fin a) (Fin b) = rnd (a * b)"
| "fmul NaN _ = NaN"
| "fmul _ NaN = NaN"
| "fmul (Fin a) b = (if a = 0 then NaN else finf (fsignbit (Fin a) \<noteq> fsignbit b))"
| "fmul a (Fin b) = (if b = 0 then NaN else finf (fsignbit a \<noteq> fsignbit (Fin b)))"
| "fmul a b = finf (fsignbit a \<noteq> fsignbit b)"

fun fdiv :: "float \<Rightarrow> float \<Rightarrow> float" where
  "fdiv (Fin a) (Fin b) =
     (if b \<noteq> 0 then rnd (a / b)
      else if a = 0 then NaN
      else finf (a < 0))"
| "fdiv NaN _ = NaN"
| "fdiv _ NaN = NaN"
| "fdiv (Fin a) _ = Fin 0"
| "fdiv a (Fin b) = finf (fsignbit a \<noteq> fsignbit (Fin b))"
| "fdiv _ _ = NaN"

fun fsqrt :: "float \<Rightarrow> float" where
  "fsqrt (Fin a) = (if a < 0 then NaN else rnd (sqrt a))"
| "fsqrt PInf = PInf"
| "fsqrt NInf = NaN"
| "fsqrt NaN = NaN"

text \<open>The conversion \<open>float(i)\<close> of an \<open>int\<close>, which rounds above \<open>2^24\<close>.\<close>

definition float_of_int :: "int32 \<Rightarrow> float" where
  "float_of_int i = rnd (real_of_int (sint i))"

subsection \<open>Vectors\<close>

text \<open>
  Modelled from the spec: \<open>math.hxx\<close> is missing. The spec names it "vector/matrix math
  utilities"; \<open>scene.hxx\<close> uses three-component float vectors with the constructors
  \<open>Vec3f(a)\<close> (all components equal) and \<open>Vec3f(x, y, z)\<close>, the component \<open>x\<close>,
  the operators \<open>+\<close>, \<open>-\<close> and \<open>*\<close> by a scalar, the squared length \<open>LenSqr\<close> and the
  square \<open>Sqr\<close>. They are componentwise float arithmetic.
\<close>

datatype Vec3f = Vec3f (Vec3f_x: float) (Vec3f_y: float) (Vec3f_z: float)
datatype Vec2f = Vec2f (Vec2f_x: float) (Vec2f_y: float)
datatype Vec2i = Vec2i (Vec2i_x: int32) (Vec2i_y: int32)

definition Vec3f1 :: "float \<Rightarrow> Vec3f" where
  "Vec3f1 a = Vec3f a a a"

fun vadd :: "Vec3f \<Rightarrow> Vec3f \<Rightarrow> Vec3f" where
  "vadd (Vec3f a b c) (Vec3f d e f) = Vec3f (fadd a d) (fadd b e) (fadd c f)"

fun vsub :: "Vec3f \<Rightarrow> Vec3f \<Rightarrow> Vec3f" where
  "vsub (Vec3f a b c) (Vec3f d e f) = Vec3f (fsub a d) (fsub b e) (fsub c f)"

fun vscale :: "Vec3f \<Rightarrow> float \<Rightarrow> Vec3f" where
  "vscale (Vec3f a b c) s = Vec3f (fmul a s) (fmul b s) (fmul c s)"

fun LenSqr :: "Vec3f \<Rightarrow> float" where
  "LenSqr (Vec3f a b c) = fadd (fadd (fmul a a) (fmul b b)) (fmul c c)"

definition Sqr :: "float \<Rightarrow> float" where
  "Sqr a = fmul a a"

subsection \<open>Rays, intersections, geometry, materials, lights\<close>

record Ray =
  org :: Vec3f
  dir :: Vec3f
  tmin :: float

text \<open>The fields of \<open>Isect\<close> that \<open>scene.hxx\<close> reads or writes.\<close>

record Isect =
  dist_t :: float
  matID :: int32
  lightID :: int32

text \<open>
  The geometry classes that \<open>scene.hxx\<close> constructs: a triangle of three points and a
  material id, a sphere of a centre, a radius and a material id, and a list of geometry
  objects, all of them behind the interface \<open>AbstractGeometry\<close>.
\<close>

datatype AbstractGeometry =
    Triangle Vec3f Vec3f Vec3f int32
  | Sphere Vec3f float int32
  | GeometryList "AbstractGeometry list"

record Material =
  mDiffuseReflectance :: Vec3f
  mPhongReflectance :: Vec3f
  mGlossiness :: float
  mMirrorReflectance :: Vec3f
  mIOR :: float

text \<open>
  A light is represented by the arguments of its constructor followed by the fields that
  \<open>scene.hxx\<close> assigns: \<open>mIntensity\<close>, and \<open>mScale\<close> for the background light.
\<close>

datatype AbstractLight =
    AreaLight Vec3f Vec3f Vec3f Vec3f
  | DirectionalLight Vec3f Vec3f
  | PointLight Vec3f Vec3f
  | BackgroundLight float

text \<open>A camera is represented by the arguments of the last call of \<open>Setup\<close>.\<close>

datatype Camera =
    Camera_unset
  | Camera_Setup Vec3f Vec3f Vec3f Vec2f float

record SceneSphere =
  mSceneCenter :: Vec3f
  mSceneRadius :: float
  mInvSceneRadiusSqr :: float

subsection \<open>What the missing headers provide\<close>

text \<open>
  The constants \<open>EPS_RAY\<close> and \<open>INV_PI_F\<close>, the values of a default-constructed
  \<open>Isect\<close>, \<open>SceneSphere\<close> and \<open>Material\<close>, \<open>Material::Reset\<close>, and the three virtual
  functions of \<open>AbstractGeometry\<close>. \<open>Intersect\<close> and \<open>IntersectP\<close> take the result by
  reference: they return it next to the boolean. \<open>GrowBBox\<close> takes the two corners of the
  box by reference and returns them.
\<close>

record externals =
  EPS_RAY :: float
  INV_PI_F :: float
  Isect_new :: Isect
  SceneSphere_new :: SceneSphere
  Material_new :: Material
  Material_Reset :: "Material \<Rightarrow> Material"
  geo_Intersect :: "AbstractGeometry \<Rightarrow> Ray \<Rightarrow> Isect \<Rightarrow> bool \<times> Isect"
  geo_IntersectP :: "AbstractGeometry \<Rightarrow> Ray \<Rightarrow> Isect \<Rightarrow> bool \<times> Isect"
  geo_GrowBBox :: "AbstractGeometry \<Rightarrow> Vec3f \<Rightarrow> Vec3f \<Rightarrow> Vec3f \<times> Vec3f"

subsection \<open>\<open>std::map<int, int>\<close>\<close>

text \<open>
  The map is the list of its entries in the order of the keys. \<open>insert\<close> leaves the map as
  it is when the key is already there; \<open>find\<close> gives the value of a key or the end
  iterator, here \<open>None\<close>.
\<close>

type_synonym std_map = "(int32 \<times> int32) list"

fun std_map_insert :: "int32 \<times> int32 \<Rightarrow> std_map \<Rightarrow> std_map" where
  "std_map_insert kv [] = [kv]"
| "std_map_insert kv (e # m) =
     (if fst kv = fst e then e # m
      else if sint (fst kv) < sint (fst e) then kv # e # m
      else e # std_map_insert kv m)"

fun std_map_find :: "std_map \<Rightarrow> int32 \<Rightarrow> int32 option" where
  "std_map_find [] k = None"
| "std_map_find (e # m) k = (if fst e = k then Some (snd e) else std_map_find m k)"

subsection \<open>The scene\<close>

text \<open>
  Pointers are options: \<open>None\<close> is \<open>NULL\<close>. A call through a null pointer and an index
  outside a vector are undefined behaviour in C++; the embedding returns them as faults.
\<close>

datatype fault = NullPointerDereference | IndexOutOfRange

record Scene =
  mGeometry :: "AbstractGeometry option"
  mCamera :: Camera
  mMaterials :: "Material list"
  mLights :: "AbstractLight option list"
  mMaterial2Light :: std_map
  mSceneSphere :: SceneSphere
  mBackground :: "AbstractLight option"

text \<open>\<open>Scene() : mGeometry(NULL), mBackground(NULL)\<close>; the containers start empty.\<close>

definition Scene_new :: "externals \<Rightarrow> Scene" where
  "Scene_new X =
     \<lparr> mGeometry = None, mCamera = Camera_unset, mMaterials = [], mLights = [],
       mMaterial2Light = [], mSceneSphere = SceneSphere_new X, mBackground = None \<rparr>"

text \<open>
  \<open>Scene::Intersect\<close> returns the boolean and the result \<open>oResult\<close>, which the caller
  passes by reference. The scene itself is \<open>const\<close> here and is not returned.
\<close>

definition Intersect :: "externals \<Rightarrow> Scene \<Rightarrow> Ray \<Rightarrow> Isect \<Rightarrow> fault + (bool \<times> Isect)" where
  "Intersect X sc aRay oResult =
     (case mGeometry sc of
        None \<Rightarrow> Inl NullPointerDereference
      | Some g \<Rightarrow>
          (case geo_Intersect X g aRay oResult of
             (hit, r1) \<Rightarrow>
               if hit then
                 (let r2 = r1\<lparr>lightID := - 1\<rparr> in
                  case std_map_find (mMaterial2Light sc) (matID r2) of
                    Some v \<Rightarrow> Inr (hit, r2\<lparr>lightID := v\<rparr>)
                  | None \<Rightarrow> Inr (hit, r2))
               else Inr (hit, r1)))"

text \<open>The ray and the \<open>Isect\<close> that \<open>Scene::Occluded\<close> builds for the any-hit test.\<close>

definition Occluded_ray :: "externals \<Rightarrow> Vec3f \<Rightarrow> Vec3f \<Rightarrow> Ray" where
  "Occluded_ray X aPoint aDir =
     \<lparr> org = vadd aPoint (vscale aDir (EPS_RAY X)), dir = aDir, tmin = flit 0 \<rparr>"

definition Occluded_isect :: "externals \<Rightarrow> float \<Rightarrow> Isect" where
  "Occluded_isect X aTMax =
     (Isect_new X)\<lparr>dist_t := fsub aTMax (fmul (flit 2) (EPS_RAY X))\<rparr>"

definition Occluded :: "externals \<Rightarrow> Scene \<Rightarrow> Vec3f \<Rightarrow> Vec3f \<Rightarrow> float \<Rightarrow> fault + bool" where
  "Occluded X sc aPoint aDir aTMax =
     (let ray = Occluded_ray X aPoint aDir;
          isect = Occluded_isect X aTMax
      in case mGeometry sc of
           None \<Rightarrow> Inl NullPointerDereference
         | Some g \<Rightarrow> Inr (fst (geo_IntersectP X g ray isect)))"

text \<open>
  \<open>GetLightPtr\<close>: \<open>mLights.size()-1\<close> is computed in \<open>size_t\<close> and converted to \<open>int\<close>
  for \<open>std::min<int>\<close>, which returns its second argument when that is the smaller one in
  the signed order. \<open>operator[]\<close> takes a \<open>size_t\<close>, so the \<open>int\<close> is sign-extended; it
  does not check the index.
\<close>

definition vector_size :: "'a list \<Rightarrow> size_t" where
  "vector_size xs = of_nat (length xs)"

definition vector_at :: "'a list \<Rightarrow> size_t \<Rightarrow> fault + 'a" where
  "vector_at xs i = (if unat i < length xs then Inr (xs ! unat i) else Inl IndexOutOfRange)"

definition std_min :: "int32 \<Rightarrow> int32 \<Rightarrow> int32" where
  "std_min a b = (if sint b < sint a then b else a)"

definition GetLightPtr :: "Scene \<Rightarrow> int32 \<Rightarrow> fault + AbstractLight option" where
  "GetLightPtr sc aLightIdx =
     (let aLightIdx = std_min aLightIdx (ucast (vector_size (mLights sc) - 1))
      in vector_at (mLights sc) (scast aLightIdx))"

definition GetLightCount :: "Scene \<Rightarrow> int32" where
  "GetLightCount sc = ucast (vector_size (mLights sc))"

text \<open>The other accessors. \<open>GetMaterial\<close> indexes \<open>mMaterials\<close> without a check.\<close>

definition GetMaterial :: "Scene \<Rightarrow> int32 \<Rightarrow> fault + Material" where
  "GetMaterial sc aMaterialIdx = vector_at (mMaterials sc) (scast aMaterialIdx)"

definition GetMaterialCount :: "Scene \<Rightarrow> int32" where
  "GetMaterialCount sc = ucast (vector_size (mMaterials sc))"

definition GetBackground :: "Scene \<Rightarrow> AbstractLight option" where
  "GetBackground sc = mBackground sc"

text \<open>
  \<open>BuildSceneSphere\<close> changes the field \<open>mSceneSphere\<close> only. The box starts as
  \<open>(1e36, -1e36)\<close> and is grown by the geometry.
\<close>

definition BuildSceneSphere :: "externals \<Rightarrow> Scene \<Rightarrow> fault + Scene" where
  "BuildSceneSphere X sc =
     (case mGeometry sc of
        None \<Rightarrow> Inl NullPointerDereference
      | Some g \<Rightarrow>
          (case geo_GrowBBox X g (Vec3f1 (flit (10 ^ 36))) (Vec3f1 (flit (- (10 ^ 36)))) of
             (bboxMin, bboxMax) \<Rightarrow>
               (let radius2 = LenSqr (vsub bboxMax bboxMin);
                    sph = (mSceneSphere sc)
                            \<lparr>mSceneCenter := vscale (vadd bboxMax bboxMin) (flit 0.5)\<rparr>;
                    sph = sph\<lparr>mSceneRadius := fmul (fsqrt radius2) (flit 0.5)\<rparr>;
                    sph = sph\<lparr>mInvSceneRadiusSqr := fdiv (flit 1) (Sqr (mSceneRadius sph))\<rparr>
                in Inr (sc\<lparr>mSceneSphere := sph\<rparr>))))"

subsection \<open>\<open>LoadCornellBox\<close>\<close>

definition LightCeiling :: uint where "LightCeiling = 1"
definition LightSun :: uint where "LightSun = 2"
definition LightPoint :: uint where "LightPoint = 4"
definition LightBackground :: uint where "LightBackground = 8"
definition BallLargeMirror :: uint where "BallLargeMirror = 16"
definition BallLargeGlass :: uint where "BallLargeGlass = 32"
definition BallMirror :: uint where "BallMirror = 64"
definition BallGlass :: uint where "BallGlass = 128"
definition Default :: uint where "Default = LightCeiling OR BallMirror OR BallGlass"
definition BothLargeBalls :: uint where "BothLargeBalls = BallLargeMirror OR BallLargeGlass"

text \<open>The line that \<open>printf\<close> writes when both large balls are asked for.\<close>

definition both_balls_notice :: string where
  "both_balls_notice = ''Cannot have both large balls, using mirror'' @ [CHR 0x0A]"

text \<open>The eight materials, pushed at the back of \<open>mMaterials\<close> in this order.\<close>

definition CornellBox_materials :: "externals \<Rightarrow> Material list" where
  "CornellBox_materials X =
     (let mat = Material_new X;
          m0 = mat;
          m1 = mat;
          mat = (Material_Reset X mat)
                  \<lparr>mDiffuseReflectance := Vec3f1 (flit 0.3),
                   mPhongReflectance := Vec3f1 (flit 0.4),
                   mGlossiness := flit 10\<rparr>;
          m2 = mat;
          mat = (Material_Reset X mat)
                  \<lparr>mDiffuseReflectance := Vec3f (flit 0.156863) (flit 0.803922) (flit 0.172549)\<rparr>;
          m3 = mat;
          mat = (Material_Reset X mat)
                  \<lparr>mDiffuseReflectance := Vec3f (flit 0.803922) (flit 0.152941) (flit 0.152941)\<rparr>;
          m4 = mat;
          mat = (Material_Reset X mat)
                  \<lparr>mDiffuseReflectance := Vec3f (flit 0.803922) (flit 0.803922) (flit 0.803922)\<rparr>;
          m5 = mat;
          mat = (Material_Reset X mat)\<lparr>mMirrorReflectance := Vec3f1 (flit 1)\<rparr>;
          m6 = mat;
          mat = (Material_Reset X mat)\<lparr>mMirrorReflectance := Vec3f1 (flit 1), mIOR := flit 1.6\<rparr>;
          m7 = mat
      in [m0, m1, m2, m3, m4, m5, m6, m7])"

text \<open>The corners \<open>p[0]\<close> to \<open>p[7]\<close> of the box.\<close>

definition box_p :: "Vec3f list" where
  "box_p =
     [Vec3f (flit (- 1.27029)) (flit 1.30455) (flit (- 1.28002)),
      Vec3f (flit 1.28975) (flit 1.30455) (flit (- 1.28002)),
      Vec3f (flit 1.28975) (flit 1.30455) (flit 1.28002),
      Vec3f (flit (- 1.27029)) (flit 1.30455) (flit 1.28002),
      Vec3f (flit (- 1.27029)) (flit (- 1.25549)) (flit (- 1.28002)),
      Vec3f (flit 1.28975) (flit (- 1.25549)) (flit (- 1.28002)),
      Vec3f (flit 1.28975) (flit (- 1.25549)) (flit 1.28002),
      Vec3f (flit (- 1.27029)) (flit (- 1.25549)) (flit 1.28002)]"

definition largeRadius :: float where "largeRadius = flit 0.8"
definition smallRadius :: float where "smallRadius = flit 0.5"

definition center :: Vec3f where
  "center =
     vadd (vscale (vadd (vadd (vadd (box_p ! 0) (box_p ! 1)) (box_p ! 4)) (box_p ! 5))
                  (fdiv (flit 1) (flit 4)))
          (Vec3f (flit 0) (flit 0) largeRadius)"

definition leftWallCenter :: Vec3f where
  "leftWallCenter =
     vadd (vscale (vadd (box_p ! 0) (box_p ! 4)) (fdiv (flit 1) (flit 2)))
          (Vec3f (flit 0) (flit 0) smallRadius)"

definition rightWallCenter :: Vec3f where
  "rightWallCenter =
     vadd (vscale (vadd (box_p ! 1) (box_p ! 5)) (fdiv (flit 1) (flit 2)))
          (Vec3f (flit 0) (flit 0) smallRadius)"

definition xlen :: float where
  "xlen = fsub (Vec3f_x rightWallCenter) (Vec3f_x leftWallCenter)"

definition leftBallCenter :: Vec3f where
  "leftBallCenter =
     vadd leftWallCenter (Vec3f (fdiv (fmul (flit 2) xlen) (flit 7)) (flit 0) (flit 0))"

definition rightBallCenter :: Vec3f where
  "rightBallCenter =
     vsub rightWallCenter (Vec3f (fdiv (fmul (flit 2) xlen) (flit 7)) (flit 0) (flit 0))"

text \<open>
  The primitives pushed into the new \<open>GeometryList\<close>, in the order of the \<open>push_back\<close>
  calls. The mask is the one left after the conflict of the two large balls is resolved.
\<close>

definition CornellBox_geometry :: "uint \<Rightarrow> AbstractGeometry list" where
  "CornellBox_geometry aBoxMask =
     [Triangle (box_p ! 0) (box_p ! 4) (box_p ! 5) 5,
      Triangle (box_p ! 5) (box_p ! 1) (box_p ! 0) 5,
      Triangle (box_p ! 0) (box_p ! 1) (box_p ! 2) 5,
      Triangle (box_p ! 2) (box_p ! 3) (box_p ! 0) 5]
     @ (if (aBoxMask AND LightCeiling) \<noteq> 0
        then [Triangle (box_p ! 2) (box_p ! 6) (box_p ! 7) 0,
              Triangle (box_p ! 7) (box_p ! 3) (box_p ! 2) 1]
        else [Triangle (box_p ! 2) (box_p ! 6) (box_p ! 7) 5,
              Triangle (box_p ! 7) (box_p ! 3) (box_p ! 2) 5])
     @ [Triangle (box_p ! 3) (box_p ! 7) (box_p ! 4) 3,
        Triangle (box_p ! 4) (box_p ! 0) (box_p ! 3) 3,
        Triangle (box_p ! 1) (box_p ! 5) (box_p ! 6) 4,
        Triangle (box_p ! 6) (box_p ! 2) (box_p ! 1) 4]
     @ (if (aBoxMask AND BallLargeMirror) \<noteq> 0 then [Sphere center largeRadius 6] else [])
     @ (if (aBoxMask AND BallLargeGlass) \<noteq> 0 then [Sphere center largeRadius 7] else [])
     @ (if (aBoxMask AND BallMirror) \<noteq> 0 then [Sphere leftBallCenter smallRadius 6] else [])
     @ (if (aBoxMask AND BallGlass) \<noteq> 0 then [Sphere rightBallCenter smallRadius 7] else [])"

text \<open>
  \<open>std::vector::resize(n)\<close> on a vector of pointers: it cuts the vector to \<open>n\<close> elements
  or fills it up with null pointers.
\<close>

definition vector_resize :: "nat \<Rightarrow> 'a option list \<Rightarrow> 'a option list" where
  "vector_resize n xs = take n xs @ replicate (n - length xs) None"

text \<open>
  The four blocks that set up the lights. Each takes the scene and returns it. After
  \<open>resize(2)\<close> the indices 0 and 1 are inside the vector, so the two assignments are
  list updates.
\<close>

definition load_light_ceiling :: "Scene \<Rightarrow> Scene" where
  "load_light_ceiling sc =
     (let ls = vector_resize 2 (mLights sc);
          l = AreaLight (box_p ! 2) (box_p ! 6) (box_p ! 7) (Vec3f1 (flit 0.95492965));
          ls = ls[0 := Some l];
          m = std_map_insert (0, 0) (mMaterial2Light sc);
          l = AreaLight (box_p ! 7) (box_p ! 3) (box_p ! 2) (Vec3f1 (flit 0.95492965));
          ls = ls[1 := Some l];
          m = std_map_insert (1, 1) m
      in sc\<lparr>mLights := ls, mMaterial2Light := m\<rparr>)"

definition load_light_sun :: "Scene \<Rightarrow> Scene" where
  "load_light_sun sc =
     (let l = DirectionalLight (Vec3f (flit (- 1)) (flit 1) (flit (- 1)))
                (vscale (Vec3f (flit 0.5) (flit 0.2) (flit 0)) (flit 1.5))
      in sc\<lparr>mLights := mLights sc @ [Some l]\<rparr>)"

definition load_light_point :: "externals \<Rightarrow> Scene \<Rightarrow> Scene" where
  "load_light_point X sc =
     (let l = PointLight (Vec3f (flit 0) (flit (- 0.5)) (flit 1))
                (Vec3f1 (fmul (flit 70) (fmul (INV_PI_F X) (flit 0.25))))
      in sc\<lparr>mLights := mLights sc @ [Some l]\<rparr>)"

definition load_light_background :: "Scene \<Rightarrow> Scene" where
  "load_light_background sc =
     (let l = BackgroundLight (flit 1)
      in sc\<lparr>mLights := mLights sc @ [Some l], mBackground := Some l\<rparr>)"

text \<open>
  \<open>LoadCornellBox\<close> returns what it prints and the scene it leaves. It has no failing
  branch: \<open>delete\<close> accepts a null pointer, and every index it uses is inside its vector.
\<close>

definition LoadCornellBox :: "externals \<Rightarrow> Vec2i \<Rightarrow> uint \<Rightarrow> Scene \<Rightarrow> string list \<times> Scene" where
  "LoadCornellBox X aResolution aBoxMask sc =
     (let both = ((aBoxMask AND BothLargeBalls) = BothLargeBalls);
          out = (if both then [both_balls_notice] else []);
          aBoxMask = (if both then aBoxMask AND NOT BallLargeGlass else aBoxMask);
          light_ceiling = ((aBoxMask AND LightCeiling) \<noteq> 0);
          light_sun = ((aBoxMask AND LightSun) \<noteq> 0);
          light_point = ((aBoxMask AND LightPoint) \<noteq> 0);
          light_background = ((aBoxMask AND LightBackground) \<noteq> 0);
          sc = sc\<lparr>mCamera :=
                 Camera_Setup
                   (Vec3f (flit (- 0.0439815)) (flit (- 4.12529)) (flit 0.222539))
                   (Vec3f (flit 0.00688625) (flit 0.998505) (flit (- 0.0542161)))
                   (Vec3f (flit 0.000373896) (flit 0.0542148) (flit 0.998529))
                   (Vec2f (float_of_int (Vec2i_x aResolution))
                          (float_of_int (Vec2i_y aResolution)))
                   (flit 45)\<rparr>;
          sc = sc\<lparr>mMaterials := mMaterials sc @ CornellBox_materials X\<rparr>;
          sc = sc\<lparr>mGeometry := Some (GeometryList (CornellBox_geometry aBoxMask))\<rparr>;
          sc = (if light_ceiling then load_light_ceiling sc else sc);
          sc = (if light_sun then load_light_sun sc else sc);
          sc = (if light_point then load_light_point X sc else sc);
          sc = (if light_background then load_light_background sc else sc)
      in (out, sc))"

subsection \<open>A sample of the missing headers\<close>

text \<open>
  The general theorems below are stated for every value of \<open>externals\<close>. To run the
  scene on concrete inputs one value is needed; this one stands in for the missing headers
  in the concrete runs only. Its bounding boxes are the real ones: a triangle grows the
  box by its three corners, a sphere by its centre minus and plus its radius, a list by its
  members in turn. Its intersection test is a table: a list whose first member is a
  triangle reports a hit on that triangle at distance 5, and every other geometry reports a
  miss and leaves the result as it was.
\<close>

fun fless :: "float \<Rightarrow> float \<Rightarrow> bool" where
  "fless (Fin a) (Fin b) = (a < b)"
| "fless NaN _ = False"
| "fless _ NaN = False"
| "fless NInf b = (b \<noteq> NInf)"
| "fless a PInf = (a \<noteq> PInf)"
| "fless _ _ = False"

definition fmin :: "float \<Rightarrow> float \<Rightarrow> float" where
  "fmin a b = (if fless b a then b else a)"

definition fmax :: "float \<Rightarrow> float \<Rightarrow> float" where
  "fmax a b = (if fless a b then b else a)"

fun grow_point :: "Vec3f \<Rightarrow> Vec3f \<times> Vec3f \<Rightarrow> Vec3f \<times> Vec3f" where
  "grow_point (Vec3f a b c) (Vec3f l1 l2 l3, Vec3f h1 h2 h3) =
     (Vec3f (fmin l1 a) (fmin l2 b) (fmin l3 c), Vec3f (fmax h1 a) (fmax h2 b) (fmax h3 c))"

fun sample_grow :: "AbstractGeometry \<Rightarrow> Vec3f \<times> Vec3f \<Rightarrow> Vec3f \<times> Vec3f" where
  "sample_grow (Triangle a b c m) bb = grow_point c (grow_point b (grow_point a bb))"
| "sample_grow (Sphere c r m) bb = grow_point (vadd c (Vec3f1 r)) (grow_point (vsub c (Vec3f1 r)) bb)"
| "sample_grow (GeometryList gs) bb = fold sample_grow gs bb"

fun sample_hit :: "AbstractGeometry \<Rightarrow> Ray \<Rightarrow> Isect \<Rightarrow> bool \<times> Isect" where
  "sample_hit (GeometryList (Triangle a b c m # gs)) ray r = (True, r\<lparr>dist_t := Fin 5, matID := m\<rparr>)"
| "sample_hit g ray r = (False, r)"

definition sample_Material :: Material where
  "sample_Material =
     \<lparr> mDiffuseReflectance = Vec3f1 (Fin 0), mPhongReflectance = Vec3f1 (Fin 0),
       mGlossiness = Fin 1, mMirrorReflectance = Vec3f1 (Fin 0), mIOR = Fin (- 1) \<rparr>"

definition sample_externals :: externals where
  "sample_externals =
     \<lparr> EPS_RAY = flit 0.001,
       INV_PI_F = flit 0.318309886,
       Isect_new = \<lparr> dist_t = flit (10 ^ 36), matID = 0, lightID = - 1 \<rparr>,
       SceneSphere_new = \<lparr> mSceneCenter = Vec3f1 (Fin 0), mSceneRadius = Fin 0,
                           mInvSceneRadiusSqr = Fin 0 \<rparr>,
       Material_new = sample_Material,
       Material_Reset = (\<lambda>m. sample_Material),
       geo_Intersect = sample_hit,
       geo_IntersectP = sample_hit,
       geo_GrowBBox = (\<lambda>g lo hi. sample_grow g (lo, hi)) \<rparr>"

subsection \<open>Notions used by the theorems\<close>

text \<open>
  The invariant of the material-to-light index: every value is an index of \<open>mLights\<close>
  that holds a light, and no key occurs twice.
\<close>

definition Material2Light_valid :: "Scene \<Rightarrow> bool" where
  "Material2Light_valid sc =
     (list_all (\<lambda>kv. 0 \<le> sint (snd kv) \<and> nat (sint (snd kv)) < length (mLights sc)
                     \<and> mLights sc ! nat (sint (snd kv)) \<noteq> None)
               (mMaterial2Light sc)
      \<and> distinct (map fst (mMaterial2Light sc)))"

text \<open>
  The two shapes the index can have in a scene that only \<open>LoadCornellBox\<close> has filled:
  empty, or the two entries of the ceiling lights with at least two lights in the scene, the
  first two of them not null.
\<close>

definition index_loaded :: "Scene \<Rightarrow> bool" where
  "index_loaded sc =
     (mMaterial2Light sc = []
      \<or> mMaterial2Light sc = [(0, 0), (1, 1)] \<and> 2 \<le> length (mLights sc)
          \<and> mLights sc ! 0 \<noteq> None \<and> mLights sc ! 1 \<noteq> None)"

text \<open>
  The mask that \<open>LoadCornellBox\<close> works with after its first statement, and the scene it
  hands to the section that sets up the lights.
\<close>

definition resolved_mask :: "uint \<Rightarrow> uint" where
  "resolved_mask aBoxMask =
     (if (aBoxMask AND BothLargeBalls) = BothLargeBalls
      then aBoxMask AND NOT BallLargeGlass else aBoxMask)"

definition before_lights :: "externals \<Rightarrow> Vec2i \<Rightarrow> uint \<Rightarrow> Scene \<Rightarrow> Scene" where
  "before_lights X aResolution aBoxMask sc =
     (let sc = sc\<lparr>mCamera :=
                 Camera_Setup
                   (Vec3f (flit (- 0.0439815)) (flit (- 4.12529)) (flit 0.222539))
                   (Vec3f (flit 0.00688625) (flit 0.998505) (flit (- 0.0542161)))
                   (Vec3f (flit 0.000373896) (flit 0.0542148) (flit 0.998529))
                   (Vec2f (float_of_int (Vec2i_x aResolution))
                          (float_of_int (Vec2i_y aResolution)))
                   (flit 45)\<rparr>;
          sc = sc\<lparr>mMaterials := mMaterials sc @ CornellBox_materials X\<rparr>;
          sc = sc\<lparr>mGeometry :=
                 Some (GeometryList (CornellBox_geometry (resolved_mask aBoxMask)))\<rparr>
      in sc)"

definition stage :: "bool \<Rightarrow> (Scene \<Rightarrow> Scene) \<Rightarrow> Scene \<Rightarrow> Scene" where
  "stage b f sc = (if b then f sc else sc)"

text \<open>Concrete scenes and rays on which the scene is run below.\<close>

definition sample_box :: Scene where
  "sample_box =
     snd (LoadCornellBox sample_externals (Vec2i 512 512) Default (Scene_new sample_externals))"

definition sample_ray :: Ray where
  "sample_ray = \<lparr> org = Vec3f (Fin 0) (Fin 0) (Fin 5), dir = Vec3f (Fin 0) (Fin 0) (Fin (- 1)),
                  tmin = Fin 0 \<rparr>"

definition sample_triangle :: "int32 \<Rightarrow> AbstractGeometry" where
  "sample_triangle m =
     Triangle (Vec3f (Fin (- 1)) (Fin (- 1)) (Fin 0)) (Vec3f (Fin 1) (Fin (- 1)) (Fin 0))
              (Vec3f (Fin 1) (Fin 1) (Fin 0)) m"

definition scene_with :: "AbstractGeometry list \<Rightarrow> std_map \<Rightarrow> Scene" where
  "scene_with gs m =
     (Scene_new sample_externals)\<lparr>mGeometry := Some (GeometryList gs), mMaterial2Light := m\<rparr>"

definition two_lights :: Scene where
  "two_lights =
     (Scene_new sample_externals)
       \<lparr>mLights := [Some (BackgroundLight (Fin 1)), Some (BackgroundLight (Fin 2))]\<rparr>"


definition point_scene :: Scene where
  "point_scene =
     scene_with
       [Triangle (Vec3f (Fin 1) (Fin 2) (Fin 3)) (Vec3f (Fin 1) (Fin 2) (Fin 3))
          (Vec3f (Fin 1) (Fin 2) (Fin 3)) 5] []"

definition zero_sphere_scene :: Scene where
  "zero_sphere_scene = scene_with [Sphere (Vec3f (Fin 0) (Fin 0) (Fin 0)) (Fin 0) 6] []"


text \<open>The real numbers that binary32 holds as finite values.\<close>

definition is_binary32 :: "real \<Rightarrow> bool" where
  "is_binary32 x =
     (\<exists>m e. x = of_int m * 2 powi e \<and> \<bar>m\<bar> < 2 ^ 24 \<and> - 149 \<le> e \<and> \<bar>x\<bar> < 2 ^ 128)"

section \<open>Properties\<close>

subsection \<open>Rounding\<close>

lemma round_even_near:
  assumes "\<bar>y - of_int m\<bar> < 1 / 2"
  shows "round_even y = m"
proof -
  have lo: "of_int m - 1 / 2 < y" and hi: "y < of_int m + 1 / 2"
    using assms by linarith+
  show ?thesis
  proof (cases "of_int m \<le> y")
    case True
    then have f: "\<lfloor>y\<rfloor> = m" using hi by (simp add: floor_eq_iff)
    have "y - of_int m < 1 / 2" using hi by simp
    then show ?thesis by (simp add: round_even_def f Let_def)
  next
    case False
    then have f: "\<lfloor>y\<rfloor> = m - 1" using lo by (simp add: floor_eq_iff)
    have "1 / 2 < y - of_int (m - 1)" using lo by simp
    then show ?thesis by (simp add: round_even_def f Let_def)
  qed
qed

lemma round_even_int: "round_even (of_int m) = m"
  by (rule round_even_near) simp

lemma floor_log2:
  assumes "2 powi k \<le> x" "x < 2 powi (k + 1)"
  shows "\<lfloor>log 2 x\<rfloor> = k"
proof -
  have x: "0 < x" using assms(1) by (smt (verit) zero_less_power_int)
  have p1: "(2::real) powr real_of_int k = 2 powi k"
    by (simp add: powr_real_of_int')
  have p2: "(2::real) powr (real_of_int k + 1) = 2 powi (k + 1)"
    using powr_real_of_int' [of "2::real" "k + 1"] by simp
  show ?thesis
    using assms x by (simp add: floor_log_eq_powr_iff p1 p2)
qed

text \<open>
  How a value is rounded, once its binade \<open>k\<close> and the nearest multiple \<open>m\<close> of the last
  place are known: to that multiple, or to an infinity when it is too large.
\<close>

lemma rnd_cases:
  assumes "2 powi k \<le> \<bar>x\<bar>" "\<bar>x\<bar> < 2 powi (k + 1)"
      and "e = max (k - 23) (- 149)"
      and "\<bar>x / 2 powi e - of_int m\<bar> < 1 / 2"
  shows "rnd x = (if 2 ^ 128 \<le> \<bar>of_int m * 2 powi e :: real\<bar> then finf (x < 0)
                  else Fin (of_int m * 2 powi e))"
proof -
  have "x \<noteq> 0" using assms(1) by (smt (verit) zero_less_power_int abs_zero)
  moreover have "ulp_exponent x = e"
    using floor_log2 [OF assms(1,2)] assms(3) by (simp add: ulp_exponent_def)
  moreover have "round_even (x / 2 powi e) = m"
    by (rule round_even_near [OF assms(4)])
  ultimately show ?thesis
    by (simp add: rnd_def Let_def)
qed

lemma rnd_eqI:
  assumes "2 powi k \<le> \<bar>x\<bar>" "\<bar>x\<bar> < 2 powi (k + 1)"
      and "e = max (k - 23) (- 149)"
      and "\<bar>x / 2 powi e - of_int m\<bar> < 1 / 2"
      and "\<bar>of_int m * 2 powi e\<bar> < (2 ^ 128 :: real)"
  shows "rnd x = Fin (of_int m * 2 powi e)"
  using rnd_cases [OF assms(1-4)] assms(5) by simp

lemma ulp_exponent_le:
  assumes "x = of_int m * 2 powi e" "\<bar>m\<bar> < 2 ^ 24" "- 149 \<le> e" "x \<noteq> 0"
  shows "ulp_exponent x \<le> e"
proof -
  have "\<bar>x\<bar> = of_int \<bar>m\<bar> * 2 powi e"
    unfolding assms(1) by (simp add: abs_mult)
  also have "\<dots> < 2 ^ 24 * 2 powi e"
  proof -
    have "real_of_int \<bar>m\<bar> < 2 ^ 24"
      using assms(2) of_int_less_iff [of "\<bar>m\<bar>" "2 ^ 24", where ?'a = real] by simp
    then show ?thesis by (simp add: mult_strict_right_mono)
  qed
  also have "\<dots> = 2 powi (e + 24)"
    by (simp add: power_int_add)
  finally have lt: "\<bar>x\<bar> < 2 powi (e + 24)" .
  have "(2::real) powr real_of_int (e + 24) = 2 powi (e + 24)"
    by (rule powr_real_of_int') simp_all
  then have "\<bar>x\<bar> < 2 powr real_of_int (e + 24)"
    using lt by (simp only:)
  then have "log 2 \<bar>x\<bar> < real_of_int (e + 24)"
    using assms(4) by (subst log_less_iff) simp_all
  then have "\<lfloor>log 2 \<bar>x\<bar>\<rfloor> < e + 24"
    by (subst floor_less_iff)
  then show ?thesis using assms(3) by (simp add: ulp_exponent_def)
qed

text \<open>A number that binary32 holds is rounded to itself.\<close>

lemma rnd_exact:
  assumes "x = of_int m * 2 powi e" "\<bar>m\<bar> < 2 ^ 24" "- 149 \<le> e" "\<bar>x\<bar> < 2 ^ 128"
  shows "rnd x = Fin x"
proof (cases "x = 0")
  case True
  then show ?thesis by (simp add: rnd_def)
next
  case False
  define E where "E = ulp_exponent x"
  have le: "E \<le> e" unfolding E_def by (rule ulp_exponent_le [OF assms(1-3) False])
  have "(2::real) powi e = 2 powi (e - E) * 2 powi E"
    by (simp flip: power_int_add)
  also have "(2::real) powi (e - E) = of_int (2 ^ nat (e - E))"
    using le by (simp add: power_int_def)
  finally have x: "x = of_int (m * 2 ^ nat (e - E)) * 2 powi E"
    unfolding assms(1) by simp
  then have "x / 2 powi E = of_int (m * 2 ^ nat (e - E))"
    by simp
  then have "of_int (round_even (x / 2 powi E)) * 2 powi E = x"
    using x by (simp only: round_even_int)
  then show ?thesis
    using False assms(4) by (simp add: rnd_def Let_def flip: E_def)
qed

lemma rnd_binary32: "is_binary32 x \<Longrightarrow> rnd x = Fin x"
  unfolding is_binary32_def using rnd_exact by blast

text \<open>
  Rounding is symmetric, so the literal \<open>-1e36f\<close>, the negation of \<open>1e36f\<close>, is the
  number nearest to \<open>-10^36\<close>.
\<close>

lemma round_even_tie: "round_even (of_int f + 1 / 2) = (if even f then f else f + 1)"
proof -
  have "\<lfloor>of_int f + 1 / 2 :: real\<rfloor> = f" by (simp add: floor_eq_iff)
  then show ?thesis by (simp add: round_even_def Let_def)
qed

lemma round_even_minus: "round_even (- y) = - round_even y"
proof (cases "y - of_int \<lfloor>y\<rfloor> = 1 / 2")
  case True
  define f where "f = \<lfloor>y\<rfloor>"
  have y: "y = of_int f + 1 / 2" using True unfolding f_def by simp
  have my: "- y = of_int (- f - 1) + 1 / 2" unfolding y by simp
  have "round_even (- y) = (if even (- f - 1) then - f - 1 else - f - 1 + 1)"
    unfolding my by (rule round_even_tie)
  moreover have "round_even y = (if even f then f else f + 1)"
    unfolding y by (rule round_even_tie)
  ultimately show ?thesis by simp
next
  case False
  define f where "f = \<lfloor>y\<rfloor>"
  have d: "0 \<le> y - of_int f" "y - of_int f < 1" unfolding f_def by linarith+
  obtain m where m: "\<bar>y - of_int m\<bar> < 1 / 2"
  proof (cases "y - of_int f < 1 / 2")
    case True
    then have "\<bar>y - of_int f\<bar> < 1 / 2" using d by simp
    then show ?thesis by (rule that)
  next
    case False
    then have "1 / 2 < y - of_int f" using \<open>y - of_int \<lfloor>y\<rfloor> \<noteq> 1 / 2\<close> unfolding f_def by simp
    then have "\<bar>y - of_int (f + 1)\<bar> < 1 / 2" using d by simp
    then show ?thesis by (rule that)
  qed
  have "\<bar>- y - of_int (- m)\<bar> < 1 / 2" using m by (simp add: abs_minus_commute)
  then have "round_even (- y) = - m" by (rule round_even_near)
  moreover have "round_even y = m" by (rule round_even_near [OF m])
  ultimately show ?thesis by simp
qed

lemma rnd_minus: "rnd (- x) = fneg (rnd x)"
proof (cases "x = 0")
  case True
  then show ?thesis by (simp add: rnd_def)
next
  case False
  have u: "ulp_exponent (- x) = ulp_exponent x" by (simp add: ulp_exponent_def)
  have "round_even (- x / 2 powi ulp_exponent x) = - round_even (x / 2 powi ulp_exponent x)"
    using round_even_minus [of "x / 2 powi ulp_exponent x"] by simp
  then show ?thesis
    using False by (simp add: rnd_def Let_def u finf_def)
qed

lemma flit_minus: "flit (- x) = fneg (flit x)"
  by (simp add: flit_def rnd_minus)

lemma round_even_bounds: "\<lfloor>y\<rfloor> \<le> round_even y" "round_even y \<le> \<lfloor>y\<rfloor> + 1"
  by (simp_all add: round_even_def Let_def)

lemma below_next_binade:
  assumes "x \<noteq> 0"
  shows "\<bar>x\<bar> < 2 powi (ulp_exponent x + 24)"
proof -
  define k where "k = \<lfloor>log 2 \<bar>x\<bar>\<rfloor>"
  have "\<bar>x\<bar> < 2 powr (real_of_int k + 1)"
    using floor_log_eq_powr_iff [of "\<bar>x\<bar>" 2 k] assms unfolding k_def by simp
  also have "\<dots> = 2 powi (k + 1)"
    using powr_real_of_int' [of "2::real" "k + 1"] by simp
  also have "\<dots> \<le> 2 powi (ulp_exponent x + 24)"
    by (rule power_int_increasing) (simp_all add: ulp_exponent_def k_def)
  finally show ?thesis .
qed

text \<open>Rounding gives a number that binary32 holds.\<close>

lemma rnd_is_binary32:
  assumes "rnd x = Fin y"
  shows "is_binary32 y"
proof (cases "x = 0")
  case True
  then have "y = 0" using assms by (simp add: rnd_def)
  then show ?thesis
    unfolding is_binary32_def by (intro exI [of _ 0]) simp
next
  case False
  define e where "e = ulp_exponent x"
  define m where "m = round_even (x / 2 powi e)"
  have e: "- 149 \<le> e" by (simp add: e_def ulp_exponent_def)
  have y: "y = of_int m * 2 powi e" and fin: "\<bar>y\<bar> < 2 ^ 128"
    using assms False
    by (auto simp: rnd_def Let_def finf_def e_def m_def split: if_splits)
  have "\<bar>x\<bar> < 2 powi (e + 24)"
    unfolding e_def by (rule below_next_binade [OF False])
  also have "\<dots> = 2 ^ 24 * 2 powi e" by (simp add: power_int_add)
  finally have ax: "\<bar>x\<bar> < 2 ^ 24 * 2 powi e" .
  have p: "(0::real) < 2 powi e" by simp
  have "x < 2 ^ 24 * 2 powi e" "- (2 ^ 24 * 2 powi e) < x"
    using ax by linarith+
  then have hi: "x / 2 powi e < 2 ^ 24" and lo: "- (2 ^ 24) < x / 2 powi e"
    using p by (simp_all add: pos_divide_less_eq pos_less_divide_eq)
  have "- (2 ^ 24) \<le> \<lfloor>x / 2 powi e\<rfloor>" "\<lfloor>x / 2 powi e\<rfloor> < 2 ^ 24"
    using hi lo by (simp_all add: le_floor_iff floor_less_iff)
  then have mb: "- (2 ^ 24) \<le> m" "m \<le> 2 ^ 24"
    using round_even_bounds [of "x / 2 powi e"] unfolding m_def by linarith+
  show ?thesis
  proof (cases "\<bar>m\<bar> < 2 ^ 24")
    case True
    then show ?thesis
      unfolding is_binary32_def using y e fin by blast
  next
    case False
    then have "m = 2 ^ 24 \<or> m = - (2 ^ 24)" using mb by linarith
    then have "y = of_int (m div 2) * 2 powi (e + 1) \<and> \<bar>m div 2\<bar> < 2 ^ 24"
      unfolding y by (auto simp: power_int_add)
    moreover have "- 149 \<le> e + 1" using e by simp
    ultimately show ?thesis
      unfolding is_binary32_def using fin by blast
  qed
qed

lemma rnd_0: "rnd 0 = Fin 0"
  by (simp add: rnd_def)

lemma rnd_small:
  "rnd 1 = Fin 1" "rnd 2 = Fin 2" "rnd 3 = Fin 3" "rnd 4 = Fin 4" "rnd 6 = Fin 6"
  "rnd 8 = Fin 8" "rnd 12 = Fin 12" "rnd (1 / 2) = Fin (1 / 2)"
  using rnd_exact [of 1 1 0] rnd_exact [of 2 2 0] rnd_exact [of 3 3 0] rnd_exact [of 4 4 0]
    rnd_exact [of 6 6 0] rnd_exact [of 8 8 0] rnd_exact [of 12 12 0]
    rnd_exact [of "1 / 2" 1 "- 1"]
  by simp_all

lemma flit_small:
  "flit 0 = Fin 0" "flit 1 = Fin 1" "flit 2 = Fin 2" "flit (1 / 2) = Fin (1 / 2)"
  by (simp_all add: flit_def rnd_0 rnd_small)

lemma flit_sentinel:
  "flit 1000000000000000000000000000000000000 = Fin (12621774 * 2 ^ 96)"
  "flit (- 1000000000000000000000000000000000000) = Fin (- (12621774 * 2 ^ 96))"
  using rnd_eqI [of 119 "10 ^ 36" 96 12621774] rnd_eqI [of 119 "- (10 ^ 36)" 96 "- 12621774"]
  by (simp_all add: flit_def)

lemma flit_radii:
  "flit (4 / 5) = Fin (13421773 / 2 ^ 24)"
  "flit (1 / 2) = Fin (1 / 2)"
  using rnd_eqI [of "- 1" "0.8" "- 24" 13421773] rnd_small(8)
  by (simp_all add: flit_def)

lemma flit_eps: "flit (1 / 1000) = Fin (8589935 / 2 ^ 33)"
  using rnd_eqI [of "- 10" "0.001" "- 33" 8589935]
  by (simp add: flit_def)

subsection \<open>The map and the sample\<close>

lemma std_map_find_None_iff: "std_map_find m k = None \<longleftrightarrow> k \<notin> fst ` set m"
  by (induction m) auto

lemma std_map_find_distinct:
  assumes "distinct (map fst m)" and "(k, v) \<in> set m"
  shows "std_map_find m k = Some v"
  using assms by (induction m) (auto simp: image_iff)

lemma std_map_find_Some_mem: "std_map_find m k = Some v \<Longrightarrow> (k, v) \<in> set m"
  by (induction m) (auto split: if_splits)

lemma std_map_insert_keys: "fst ` set (std_map_insert kv m) = insert (fst kv) (fst ` set m)"
  by (induction m) auto

text \<open>A \<open>std::map\<close> is ordered by its keys, and \<open>insert\<close> keeps it so.\<close>

lemma std_map_insert_sorted:
  assumes "sorted_wrt (\<lambda>a b. sint (fst a) < sint (fst b)) m"
  shows "sorted_wrt (\<lambda>a b. sint (fst a) < sint (fst b)) (std_map_insert kv m)"
  using assms
proof (induction m)
  case Nil
  then show ?case by simp
next
  case (Cons e m)
  have "sint (fst e) < sint (fst x)" if "x \<in> set (std_map_insert kv m)"
    "\<not> sint (fst kv) < sint (fst e)" "fst kv \<noteq> fst e" for x
  proof -
    have "fst x \<in> insert (fst kv) (fst ` set m)"
      using that(1) std_map_insert_keys [of kv m] by blast
    moreover have "sint (fst e) < sint (fst kv)"
    proof -
      have "sint (fst kv) \<noteq> sint (fst e)"
        using that(3) by (auto dest: signed_word_eqI)
      then show ?thesis using that(2) by simp
    qed
    ultimately show ?thesis using Cons.prems by auto
  qed
  then show ?case using Cons by auto
qed

lemma sample_fields:
  "geo_Intersect sample_externals = sample_hit"
  "geo_IntersectP sample_externals = sample_hit"
  "geo_GrowBBox sample_externals = (\<lambda>g lo hi. sample_grow g (lo, hi))"
  "Isect_new sample_externals = \<lparr> dist_t = flit (10 ^ 36), matID = 0, lightID = - 1 \<rparr>"
  "EPS_RAY sample_externals = Fin (8589935 / 2 ^ 33)"
  by (simp_all add: sample_externals_def flit_eps)

lemma scene_with_fields:
  "mGeometry (scene_with gs m) = Some (GeometryList gs)"
  "mMaterial2Light (scene_with gs m) = m"
  "mLights (scene_with gs m) = []"
  by (simp_all add: scene_with_def Scene_new_def)

subsection \<open>Queries on a scene without geometry\<close>

text \<open>
  Claim C1, as the code has it. \<open>Intersect\<close> and \<open>Occluded\<close> call through \<open>mGeometry\<close>
  without testing it. On a scene that holds no geometry, and so on a freshly constructed
  scene, both are a call through a null pointer: they do not answer "no hit" and "not
  occluded". On a scene that holds an aggregate they answer, \<open>Intersect\<close> with the flag of
  the aggregate's closest-hit query and \<open>Occluded\<close> with the flag of its any-hit query, so
  an aggregate that hits nothing gives no hit and not occluded.
\<close>

theorem queries_dereference_geometry:
  "Intersect X (Scene_new X) aRay oResult = Inl NullPointerDereference
   \<and> Occluded X (Scene_new X) aPoint aDir aTMax = Inl NullPointerDereference
   \<and> Intersect X (sc\<lparr>mGeometry := None\<rparr>) aRay oResult = Inl NullPointerDereference
   \<and> Occluded X (sc\<lparr>mGeometry := None\<rparr>) aPoint aDir aTMax = Inl NullPointerDereference
   \<and> (\<exists>res. Intersect X (sc\<lparr>mGeometry := Some g\<rparr>) aRay oResult
               = Inr (fst (geo_Intersect X g aRay oResult), res))
   \<and> Occluded X (sc\<lparr>mGeometry := Some g\<rparr>) aPoint aDir aTMax
       = Inr (fst (geo_IntersectP X g (Occluded_ray X aPoint aDir) (Occluded_isect X aTMax)))"
  by (auto simp: Intersect_def Occluded_def Scene_new_def Let_def
           split: prod.splits option.splits)

text \<open>
  The freshly constructed scene of the sample, asked for a ray from \<open>(0, 0, 5)\<close> down the
  z axis and for the occlusion of the origin along the z axis: both queries fault.
\<close>

theorem no_geometry_counterexample:
  "Intersect sample_externals (Scene_new sample_externals) sample_ray
       (Isect_new sample_externals)
     = Inl NullPointerDereference
   \<and> Occluded sample_externals (Scene_new sample_externals)
        (Vec3f (Fin 0) (Fin 0) (Fin 0)) (Vec3f (Fin 0) (Fin 0) (Fin 1)) (Fin 1)
     = Inl NullPointerDereference"
  by (simp add: Intersect_def Occluded_def Scene_new_def)

subsection \<open>\<open>Intersect\<close>\<close>

text \<open>What a hit of \<open>Intersect\<close> is made of.\<close>

lemma Intersect_hit:
  assumes "Intersect X sc aRay oResult = Inr (True, res)"
  shows "\<exists>g r1. mGeometry sc = Some g \<and> geo_Intersect X g aRay oResult = (True, r1)
           \<and> res = r1\<lparr>lightID :=
                 (case std_map_find (mMaterial2Light sc) (matID r1) of
                    Some v \<Rightarrow> v | None \<Rightarrow> - 1)\<rparr>"
  using assms
  by (auto simp: Intersect_def Let_def split: option.splits prod.splits if_splits)

text \<open>
  Claim C2. The index is a \<open>std::map\<close>, so no key occurs in it twice. Whenever
  \<open>Intersect\<close> reports a hit, the light id it returns is the value of the entry of the
  index whose key is the material id of the hit, and it is \<open>-1\<close> when the index has no
  entry with that key. The material id and every other field are those the aggregate
  reported.
\<close>

theorem Intersect_hit_lightID:
  assumes "Intersect X sc aRay oResult = Inr (True, res)"
      and "distinct (map fst (mMaterial2Light sc))"
  shows "(\<forall>v. (matID res, v) \<in> set (mMaterial2Light sc) \<longrightarrow> lightID res = v)
         \<and> (matID res \<notin> fst ` set (mMaterial2Light sc) \<longrightarrow> lightID res = - 1)
         \<and> (\<exists>g r1. mGeometry sc = Some g \<and> geo_Intersect X g aRay oResult = (True, r1)
               \<and> res = r1\<lparr>lightID := lightID res\<rparr>)"
proof -
  obtain g r1 where g: "mGeometry sc = Some g"
    and h: "geo_Intersect X g aRay oResult = (True, r1)"
    and r: "res = r1\<lparr>lightID :=
                 (case std_map_find (mMaterial2Light sc) (matID r1) of
                    Some v \<Rightarrow> v | None \<Rightarrow> - 1)\<rparr>"
    using Intersect_hit [OF assms(1)] by blast
  have m: "matID res = matID r1" using r by simp
  have "lightID res = v" if "(matID res, v) \<in> set (mMaterial2Light sc)" for v
    using std_map_find_distinct [OF assms(2) that] r m by simp
  moreover have "lightID res = - 1" if "matID res \<notin> fst ` set (mMaterial2Light sc)"
    using that r m by (simp add: std_map_find_None_iff [symmetric])
  moreover have "res = r1\<lparr>lightID := lightID res\<rparr>" using r by simp
  ultimately show ?thesis using g h by blast
qed

theorem Intersect_hit_lightID_witness:
  "Intersect sample_externals (scene_with [sample_triangle 1] [(0, 0), (1, 1)]) sample_ray
       (Isect_new sample_externals)
     = Inr (True, \<lparr> dist_t = Fin 5, matID = 1, lightID = 1 \<rparr>)
   \<and> distinct (map fst [(0, 0), (1, 1 :: int32)] :: int32 list)
   \<and> Intersect sample_externals (scene_with [sample_triangle 5] [(0, 0), (1, 1)]) sample_ray
       (Isect_new sample_externals)
     = Inr (True, \<lparr> dist_t = Fin 5, matID = 5, lightID = - 1 \<rparr>)"
proof -
  have h: "Intersect sample_externals (scene_with [sample_triangle 1] [(0, 0), (1, 1)])
       sample_ray (Isect_new sample_externals)
     = Inr (True, \<lparr> dist_t = Fin 5, matID = 1, lightID = 1 \<rparr>)"
    by (simp add: Intersect_def sample_fields scene_with_fields sample_triangle_def)
  have h5: "Intersect sample_externals (scene_with [sample_triangle 5] [(0, 0), (1, 1)])
       sample_ray (Isect_new sample_externals)
     = Inr (True, \<lparr> dist_t = Fin 5, matID = 5, lightID = - 1 \<rparr>)"
    by (simp add: Intersect_def sample_fields scene_with_fields sample_triangle_def)
  have d: "distinct (map fst (mMaterial2Light (scene_with [sample_triangle 1] [(0, 0), (1, 1)])))"
          "distinct (map fst (mMaterial2Light (scene_with [sample_triangle 5] [(0, 0), (1, 1)])))"
    by (simp_all add: scene_with_fields)
  show ?thesis
    using h h5 Intersect_hit_lightID [OF h d(1)] Intersect_hit_lightID [OF h5 d(2)] by simp
qed




subsection \<open>\<open>Occluded\<close>\<close>

text \<open>
  Claim C3. On a scene with geometry, \<open>Occluded\<close> returns the boolean of the aggregate's
  any-hit test, asked with the ray whose origin is \<open>aPoint + aDir * EPS_RAY\<close>, whose
  direction is \<open>aDir\<close> and whose \<open>tmin\<close> is 0, and with a default \<open>Isect\<close> whose distance
  is set to \<open>aTMax - 2 * EPS_RAY\<close>. The sums and products are those of \<open>float\<close>: for
  finite numbers whose products with \<open>EPS_RAY\<close> are finite, each coordinate of the origin
  is the rounded sum of the point's coordinate and the rounded product, and the distance
  is the rounded difference of \<open>aTMax\<close> and the rounded double of \<open>EPS_RAY\<close>.
\<close>

theorem Occluded_any_hit:
  assumes "mGeometry sc = Some g"
  shows "Occluded X sc aPoint aDir aTMax =
           Inr (fst (geo_IntersectP X g
                  \<lparr> org = vadd aPoint (vscale aDir (EPS_RAY X)), dir = aDir, tmin = Fin 0 \<rparr>
                  ((Isect_new X)\<lparr>dist_t := fsub aTMax (fmul (Fin 2) (EPS_RAY X))\<rparr>)))
         \<and> (aPoint = Vec3f (Fin p1) (Fin p2) (Fin p3) \<and> aDir = Vec3f (Fin d1) (Fin d2) (Fin d3)
              \<and> EPS_RAY X = Fin e \<and> aTMax = Fin t
              \<and> rnd (d1 * e) = Fin o1 \<and> rnd (d2 * e) = Fin o2 \<and> rnd (d3 * e) = Fin o3
              \<and> rnd (2 * e) = Fin e2 \<longrightarrow>
              vadd aPoint (vscale aDir (EPS_RAY X))
                = Vec3f (rnd (p1 + o1)) (rnd (p2 + o2)) (rnd (p3 + o3))
              \<and> fsub aTMax (fmul (Fin 2) (EPS_RAY X)) = rnd (t - e2))"
  using assms
  by (simp add: Occluded_def Occluded_ray_def Occluded_isect_def fsub_def flit_small)

text \<open>
  With \<open>EPS_RAY\<close> the literal \<open>1e-3f\<close>: from the point \<open>(0, 0, 5)\<close> down the z axis the
  origin is at \<open>4.99900007\<close> and a distance of 10 becomes \<open>9.99800014\<close>, while a distance
  of \<open>10^8\<close> stays as it is.
\<close>

lemma eps_rounding:
  "rnd (- (8589935 / 2 ^ 33)) = Fin (- (8589935 / 2 ^ 33))"
  "rnd (2 * (8589935 / 2 ^ 33)) = Fin (8589935 / 2 ^ 32)"
  "rnd (5 + - (8589935 / 2 ^ 33)) = Fin (10483663 / 2 ^ 21)"
  "rnd (10 - 8589935 / 2 ^ 32) = Fin (10483663 / 2 ^ 20)"
  "rnd (10 ^ 8 - 8589935 / 2 ^ 32) = Fin (10 ^ 8)"
  using rnd_exact [of "- (8589935 / 2 ^ 33)" "- 8589935" "- 33"]
    rnd_exact [of "8589935 / 2 ^ 32" 8589935 "- 32"]
    rnd_eqI [of 2 "5 + - (8589935 / 2 ^ 33)" "- 21" 10483663]
    rnd_eqI [of 3 "10 - 8589935 / 2 ^ 32" "- 20" 10483663]
    rnd_eqI [of 26 "10 ^ 8 - 8589935 / 2 ^ 32" 3 12500000]
  by simp_all

theorem Occluded_any_hit_witness:
  "mGeometry (scene_with [sample_triangle 5] []) = Some (GeometryList [sample_triangle 5])
   \<and> Occluded sample_externals (scene_with [sample_triangle 5] [])
        (Vec3f (Fin 0) (Fin 0) (Fin 5)) (Vec3f (Fin 0) (Fin 0) (Fin (- 1))) (Fin 10) = Inr True
   \<and> vadd (Vec3f (Fin 0) (Fin 0) (Fin 5))
        (vscale (Vec3f (Fin 0) (Fin 0) (Fin (- 1))) (EPS_RAY sample_externals))
       = Vec3f (Fin 0) (Fin 0) (Fin (10483663 / 2 ^ 21))
   \<and> fsub (Fin 10) (fmul (Fin 2) (EPS_RAY sample_externals)) = Fin (10483663 / 2 ^ 20)
   \<and> fsub (Fin (10 ^ 8)) (fmul (Fin 2) (EPS_RAY sample_externals)) = Fin (10 ^ 8)"
proof -
  have g: "mGeometry (scene_with [sample_triangle 5] []) = Some (GeometryList [sample_triangle 5])"
    by (simp add: scene_with_fields)
  note w = Occluded_any_hit [OF g, of sample_externals "Vec3f (Fin 0) (Fin 0) (Fin 5)"
        "Vec3f (Fin 0) (Fin 0) (Fin (- 1))" "Fin 10" 0 0 5 0 0 "- 1" "8589935 / 2 ^ 33" 10
        0 0 "- (8589935 / 2 ^ 33)" "8589935 / 2 ^ 32"]
  show ?thesis
    using g w eps_rounding
    by (simp add: sample_fields sample_triangle_def rnd_0 fsub_def)
qed

subsection \<open>\<open>GetLightPtr\<close>\<close>

lemma sint_size_minus_one:
  assumes "0 < n" "n \<le> 2 ^ 31"
  shows "sint (ucast ((of_nat n :: 64 word) - 1) :: 32 word) = int n - 1"
proof -
  obtain k where k: "n = Suc k" using assms(1) by (cases n) auto
  have kb: "k < 2 ^ 31" using assms(2) k by simp
  have e: "(of_nat n :: 64 word) - 1 = of_nat k" unfolding k by simp
  have "k < 2 ^ 64" using kb by simp
  then have u: "uint (of_nat k :: 64 word) = int k"
    by (simp add: uint_nat unat_of_nat)
  have "sint (ucast (of_nat k :: 64 word) :: 32 word) = signed_take_bit 31 (int k)"
    unfolding signed_ucast_eq u by simp
  also have "\<dots> = int k"
    using kb by (intro signed_take_bit_int_eq_self) auto
  finally have c: "sint (ucast (of_nat k :: 64 word) :: 32 word) = int k" .
  have "int k = int n - 1" unfolding k by simp
  then show ?thesis by (simp only: e c)
qed

lemma uint_word_of_int_64: "uint (word_of_int k :: 64 word) = k mod 2 ^ 64"
  by (simp add: uint_word_of_int)

lemma unat_scast_int: "unat (scast (w :: 32 word) :: 64 word) = nat (sint w mod 2 ^ 64)"
proof -
  have "uint (scast w :: 64 word) = uint (word_of_int (sint w) :: 64 word)"
    by (rule arg_cong [where f = uint, OF scast_eq])
  also have "\<dots> = sint w mod 2 ^ 64"
    by (rule uint_word_of_int_64)
  finally have e: "uint (scast w :: 64 word) = sint w mod 2 ^ 64" .
  show ?thesis unfolding unat_eq_nat_uint e ..
qed

lemma sint_std_min: "sint (std_min a b) = min (sint a) (sint b)"
  by (simp add: std_min_def min_def)

lemma sint32_range: "- (2 ^ 31) \<le> sint (w :: 32 word) \<and> sint w < 2 ^ 31"
  using sint_greater_eq [of w] sint_less [of w] by simp

lemma sint_of_nat_32:
  assumes "k < 2 ^ 31"
  shows "sint (of_nat k :: 32 word) = int k"
proof -
  have "sint (of_nat k :: 32 word) = signed_take_bit 31 (int k)"
    by (simp add: signed_of_nat)
  also have "\<dots> = int k"
    using assms by (intro signed_take_bit_int_eq_self) auto
  finally show ?thesis .
qed

lemma GetLightCount_of_nat:
  assumes "length (mLights sc) < 2 ^ 31"
  shows "GetLightCount sc = of_nat (length (mLights sc))"
proof -
  have "length (mLights sc) < 2 ^ 64" using assms by simp
  then have "take_bit 64 (length (mLights sc)) = length (mLights sc)"
    by (simp add: take_bit_nat_eq_self)
  then show ?thesis
    by (simp add: GetLightCount_def vector_size_def unsigned_of_nat)
qed

lemma GetLightPtr_unfold:
  "GetLightPtr sc aLightIdx =
     (if unat (scast (std_min aLightIdx (ucast (vector_size (mLights sc) - 1))) :: 64 word)
          < length (mLights sc)
      then Inr (mLights sc !
             unat (scast (std_min aLightIdx (ucast (vector_size (mLights sc) - 1))) :: 64 word))
      else Inl IndexOutOfRange)"
  unfolding GetLightPtr_def vector_at_def Let_def ..

text \<open>
  What \<open>GetLightPtr\<close> does on a non-empty vector whose size minus one fits an \<open>int\<close>:
  the index is cut down to the last one from above, and a negative index goes to the
  vector as it is, where it is outside.
\<close>

lemma GetLightPtr_eq:
  assumes "mLights sc \<noteq> []" "length (mLights sc) \<le> 2 ^ 31"
  shows "GetLightPtr sc aLightIdx =
           (if 0 \<le> sint aLightIdx
            then Inr (mLights sc ! min (nat (sint aLightIdx)) (length (mLights sc) - 1))
            else Inl IndexOutOfRange)"
proof -
  let ?n = "length (mLights sc)"
  let ?i = "std_min aLightIdx (ucast (vector_size (mLights sc) - 1))"
  have n: "0 < ?n" using assms by simp
  have s: "sint ?i = min (sint aLightIdx) (int ?n - 1)"
    using sint_size_minus_one [OF n assms(2)] by (simp add: sint_std_min vector_size_def)
  have r: "- (2 ^ 31) \<le> sint aLightIdx" "sint aLightIdx < 2 ^ 31"
    using sint32_range [of aLightIdx] by auto
  show ?thesis
  proof (cases "0 \<le> sint aLightIdx")
    case True
    then have "0 \<le> sint ?i" "sint ?i < 2 ^ 64" using s n r by auto
    then have "unat (scast ?i :: 64 word) = nat (sint ?i)"
      by (simp add: unat_scast_int)
    also have "\<dots> = min (nat (sint aLightIdx)) (?n - 1)" using s True n by auto
    finally have u: "unat (scast ?i :: 64 word) = min (nat (sint aLightIdx)) (?n - 1)" .
    have "min (nat (sint aLightIdx)) (?n - 1) < ?n" using n by (simp add: min_less_iff_disj)
    then show ?thesis unfolding GetLightPtr_unfold u using True by simp
  next
    case False
    then have neg: "sint ?i < 0" "- (2 ^ 31) \<le> sint ?i" using s r by auto
    then have "(sint ?i + 2 ^ 64) mod 2 ^ 64 = sint ?i + 2 ^ 64"
      by (intro mod_pos_pos_trivial) auto
    then have "sint ?i mod 2 ^ 64 = sint ?i + 2 ^ 64"
      by simp
    then have "unat (scast ?i :: 64 word) = nat (sint ?i + 2 ^ 64)"
      by (simp add: unat_scast_int)
    then have "\<not> unat (scast ?i :: 64 word) < ?n" using neg assms(2) by auto
    then show ?thesis unfolding GetLightPtr_unfold using False by simp
  qed
qed

text \<open>
  Claim C4, as the code has it. For a non-empty light collection whose size \<open>count\<close> is
  an \<open>int\<close>, \<open>GetLightPtr\<close> clamps the index from above only: an index of 0 or more
  returns the light at the smaller of the index and \<open>count - 1\<close>, and an index below 0 is
  not clamped and is outside the vector. In particular, where \<open>count + 5\<close> is an \<open>int\<close>,
  \<open>GetLightPtr(count)\<close> and \<open>GetLightPtr(count + 5)\<close> return what \<open>GetLightPtr(count - 1)\<close>
  returns.
\<close>

theorem GetLightPtr_clamps_above:
  assumes "mLights sc \<noteq> []" and "length (mLights sc) < 2 ^ 31"
  shows "GetLightPtr sc aLightIdx =
           (if 0 \<le> sint aLightIdx
            then Inr (mLights sc ! min (nat (sint aLightIdx)) (length (mLights sc) - 1))
            else Inl IndexOutOfRange)
         \<and> (length (mLights sc) + 5 < 2 ^ 31 \<longrightarrow>
              GetLightPtr sc (GetLightCount sc) = GetLightPtr sc (GetLightCount sc - 1)
              \<and> GetLightPtr sc (GetLightCount sc + 5) = GetLightPtr sc (GetLightCount sc - 1))"
proof -
  let ?n = "length (mLights sc)"
  have le: "?n \<le> 2 ^ 31" using assms(2) by simp
  note eq = GetLightPtr_eq [OF assms(1) le]
  have n: "0 < ?n" using assms(1) by simp
  then obtain k where k: "?n = Suc k" by (cases ?n) auto
  have c: "GetLightCount sc = of_nat ?n" by (rule GetLightCount_of_nat [OF assms(2)])
  have s0: "sint (GetLightCount sc) = int ?n"
    unfolding c by (rule sint_of_nat_32 [OF assms(2)])
  have "GetLightCount sc - 1 = of_nat k" unfolding c k by simp
  moreover have "k < 2 ^ 31" using assms(2) k by simp
  ultimately have s1: "sint (GetLightCount sc - 1) = int k"
    by (simp add: sint_of_nat_32)
  have s5: "sint (GetLightCount sc + 5) = int ?n + 5" if "?n + 5 < 2 ^ 31"
  proof -
    have "GetLightCount sc + 5 = of_nat (?n + 5)" unfolding c by simp
    then show ?thesis using sint_of_nat_32 [OF that] by simp
  qed
  have p0: "GetLightPtr sc (GetLightCount sc) = Inr (mLights sc ! k)"
    unfolding eq s0 using k by simp
  have p1: "GetLightPtr sc (GetLightCount sc - 1) = Inr (mLights sc ! k)"
    unfolding eq s1 using k by simp
  have p5: "GetLightPtr sc (GetLightCount sc + 5) = Inr (mLights sc ! k)" if "?n + 5 < 2 ^ 31"
    unfolding eq s5 [OF that] using k by simp
  show ?thesis using eq p0 p1 p5 by simp
qed

theorem GetLightPtr_clamps_above_witness:
  "mLights two_lights \<noteq> [] \<and> length (mLights two_lights) < 2 ^ 31
   \<and> length (mLights two_lights) + 5 < 2 ^ 31
   \<and> GetLightPtr two_lights 7 = Inr (Some (BackgroundLight (Fin 2)))
   \<and> GetLightPtr two_lights (GetLightCount two_lights)
       = GetLightPtr two_lights (GetLightCount two_lights - 1)
   \<and> GetLightPtr two_lights (GetLightCount two_lights + 5)
       = GetLightPtr two_lights (GetLightCount two_lights - 1)"
proof -
  have h: "mLights two_lights \<noteq> []" "length (mLights two_lights) < 2 ^ 31"
    by (simp_all add: two_lights_def)
  have l: "mLights two_lights = [Some (BackgroundLight (Fin 1)), Some (BackgroundLight (Fin 2))]"
    by (simp add: two_lights_def)
  show ?thesis
    using h GetLightPtr_clamps_above [OF h, of 7] by (simp add: l)
qed

text \<open>Two lights and the index \<open>-1\<close>: the index is below the range and is not clamped.\<close>

theorem GetLightPtr_negative_counterexample:
  "GetLightPtr two_lights (- 1) = Inl IndexOutOfRange"
proof -
  have "mLights two_lights \<noteq> []" "length (mLights two_lights) \<le> 2 ^ 31"
    by (simp_all add: two_lights_def)
  from GetLightPtr_eq [OF this, of "- 1"] show ?thesis by simp
qed

subsection \<open>\<open>BuildSceneSphere\<close>\<close>






text \<open>The sphere that \<open>BuildSceneSphere\<close> stores, in terms of the box that \<open>GrowBBox\<close> returns.\<close>

lemma BuildSceneSphere_unfold:
  assumes "mGeometry sc = Some g"
      and "geo_GrowBBox X g (Vec3f1 (flit (10 ^ 36))) (Vec3f1 (flit (- (10 ^ 36))))
             = (bboxMin, bboxMax)"
  shows "BuildSceneSphere X sc =
           Inr (sc\<lparr>mSceneSphere := (mSceneSphere sc)
                  \<lparr>mSceneCenter := vscale (vadd bboxMax bboxMin) (Fin (1 / 2)),
                   mSceneRadius := fmul (fsqrt (LenSqr (vsub bboxMax bboxMin))) (Fin (1 / 2)),
                   mInvSceneRadiusSqr :=
                     fdiv (Fin 1)
                       (Sqr (fmul (fsqrt (LenSqr (vsub bboxMax bboxMin))) (Fin (1 / 2))))\<rparr>\<rparr>)"
  using assms by (simp add: BuildSceneSphere_def Let_def flit_small)









text \<open>Twice a binary32 number below \<open>2^127\<close> and its half again are exact.\<close>

lemma double_half_exact:
  assumes "is_binary32 a" "\<bar>a\<bar> < 2 ^ 127"
  shows "fmul (fadd (Fin a) (Fin a)) (Fin (1 / 2)) = Fin a"
proof -
  obtain m e where a: "a = of_int m * 2 powi e" "\<bar>m\<bar> < 2 ^ 24" "- 149 \<le> e"
    using assms(1) unfolding is_binary32_def by blast
  have "a + a = of_int m * 2 powi (e + 1)"
    unfolding a(1) by (simp add: power_int_add)
  moreover have "\<bar>a + a\<bar> < 2 ^ 128" using assms(2) by simp
  moreover have "- 149 \<le> e + 1" using a(3) by simp
  ultimately have "rnd (a + a) = Fin (a + a)"
    using a(2) by (intro rnd_exact)
  moreover have "rnd a = Fin a"
    by (rule rnd_binary32 [OF assms(1)])
  ultimately show ?thesis by simp
qed

text \<open>
  Claim C6, as the code has it. \<open>BuildSceneSphere\<close> has no guard for a box that is a
  single point. There the radius is 0, its square is 0, and the field
  \<open>mInvSceneRadiusSqr\<close> is the result of dividing 1 by that 0, which is plus infinity.
  The division raises nothing and the call returns. The centre is the point itself when
  its coordinates are binary32 numbers below \<open>2^127\<close> in absolute value.
\<close>

theorem BuildSceneSphere_point_box:
  assumes "mGeometry sc = Some g"
      and "geo_GrowBBox X g (Vec3f1 (flit (10 ^ 36))) (Vec3f1 (flit (- (10 ^ 36))))
             = (Vec3f (Fin a1) (Fin a2) (Fin a3), Vec3f (Fin a1) (Fin a2) (Fin a3))"
  shows "BuildSceneSphere X sc =
           Inr (sc\<lparr>mSceneSphere := (mSceneSphere sc)
                  \<lparr>mSceneCenter :=
                     vscale (vadd (Vec3f (Fin a1) (Fin a2) (Fin a3))
                                  (Vec3f (Fin a1) (Fin a2) (Fin a3))) (Fin (1 / 2)),
                   mSceneRadius := Fin 0,
                   mInvSceneRadiusSqr := fdiv (Fin 1) (Sqr (Fin 0))\<rparr>\<rparr>)
         \<and> Sqr (Fin 0) = Fin 0 \<and> fdiv (Fin 1) (Sqr (Fin 0)) = PInf
         \<and> (is_binary32 a1 \<and> is_binary32 a2 \<and> is_binary32 a3
              \<and> \<bar>a1\<bar> < 2 ^ 127 \<and> \<bar>a2\<bar> < 2 ^ 127 \<and> \<bar>a3\<bar> < 2 ^ 127 \<longrightarrow>
              BuildSceneSphere X sc =
                Inr (sc\<lparr>mSceneSphere := (mSceneSphere sc)
                       \<lparr>mSceneCenter := Vec3f (Fin a1) (Fin a2) (Fin a3),
                        mSceneRadius := Fin 0,
                        mInvSceneRadiusSqr := fdiv (Fin 1) (Sqr (Fin 0))\<rparr>\<rparr>))"
proof -
  have r: "fmul (fsqrt (LenSqr (vsub (Vec3f (Fin a1) (Fin a2) (Fin a3))
                                      (Vec3f (Fin a1) (Fin a2) (Fin a3))))) (Fin (1 / 2)) = Fin 0"
    by (simp add: fsub_def rnd_0)
  have u: "BuildSceneSphere X sc =
           Inr (sc\<lparr>mSceneSphere := (mSceneSphere sc)
                  \<lparr>mSceneCenter :=
                     vscale (vadd (Vec3f (Fin a1) (Fin a2) (Fin a3))
                                  (Vec3f (Fin a1) (Fin a2) (Fin a3))) (Fin (1 / 2)),
                   mSceneRadius := Fin 0,
                   mInvSceneRadiusSqr := fdiv (Fin 1) (Sqr (Fin 0))\<rparr>\<rparr>)"
    unfolding BuildSceneSphere_unfold [OF assms] r ..
  have z: "Sqr (Fin 0) = Fin 0" "fdiv (Fin 1) (Sqr (Fin 0)) = PInf"
    by (simp_all add: Sqr_def rnd_0 finf_def)
  have c: "vscale (vadd (Vec3f (Fin a1) (Fin a2) (Fin a3)) (Vec3f (Fin a1) (Fin a2) (Fin a3)))
             (Fin (1 / 2)) = Vec3f (Fin a1) (Fin a2) (Fin a3)"
    if "is_binary32 a1 \<and> is_binary32 a2 \<and> is_binary32 a3
        \<and> \<bar>a1\<bar> < 2 ^ 127 \<and> \<bar>a2\<bar> < 2 ^ 127 \<and> \<bar>a3\<bar> < 2 ^ 127"
    using that by (simp add: double_half_exact del: fadd.simps fmul.simps)
  show ?thesis
    using u z c by simp
qed

lemma is_binary32_small: "is_binary32 0" "is_binary32 1" "is_binary32 2" "is_binary32 3"
  unfolding is_binary32_def
  by (rule exI [of _ 0], rule exI [of _ 0], simp)
     (rule exI [of _ 1], rule exI [of _ 0], simp,
      rule exI [of _ 2], rule exI [of _ 0], simp,
      rule exI [of _ 3], rule exI [of _ 0], simp)

lemma zero_sphere_grow:
  "geo_GrowBBox sample_externals (GeometryList [Sphere (Vec3f (Fin 0) (Fin 0) (Fin 0)) (Fin 0) 6])
     (Vec3f1 (flit (10 ^ 36))) (Vec3f1 (flit (- (10 ^ 36))))
   = (Vec3f (Fin 0) (Fin 0) (Fin 0), Vec3f (Fin 0) (Fin 0) (Fin 0))"
  by (simp add: sample_fields Vec3f1_def fmin_def fmax_def fsub_def flit_sentinel rnd_0)

theorem BuildSceneSphere_point_box_witness:
  "mGeometry zero_sphere_scene
     = Some (GeometryList [Sphere (Vec3f (Fin 0) (Fin 0) (Fin 0)) (Fin 0) 6])
   \<and> BuildSceneSphere sample_externals zero_sphere_scene =
       Inr (zero_sphere_scene\<lparr>mSceneSphere := (mSceneSphere zero_sphere_scene)
            \<lparr>mSceneCenter := Vec3f (Fin 0) (Fin 0) (Fin 0), mSceneRadius := Fin 0,
             mInvSceneRadiusSqr := PInf\<rparr>\<rparr>)"
proof -
  have g: "mGeometry zero_sphere_scene
     = Some (GeometryList [Sphere (Vec3f (Fin 0) (Fin 0) (Fin 0)) (Fin 0) 6])"
    by (simp add: zero_sphere_scene_def scene_with_fields)
  show ?thesis
    using g BuildSceneSphere_point_box [OF g zero_sphere_grow] is_binary32_small(1)
    by (simp add: rnd_0 finf_def)
qed

lemma point_grow:
  "geo_GrowBBox sample_externals
     (GeometryList
        [Triangle (Vec3f (Fin 1) (Fin 2) (Fin 3)) (Vec3f (Fin 1) (Fin 2) (Fin 3))
           (Vec3f (Fin 1) (Fin 2) (Fin 3)) 5])
     (Vec3f1 (flit (10 ^ 36))) (Vec3f1 (flit (- (10 ^ 36))))
   = (Vec3f (Fin 1) (Fin 2) (Fin 3), Vec3f (Fin 1) (Fin 2) (Fin 3))"
  by (simp add: sample_fields Vec3f1_def fmin_def fmax_def flit_sentinel)

text \<open>
  A scene whose only primitive is a triangle with its three corners at \<open>(1, 2, 3)\<close>: the
  radius is 0 and the inverse squared radius is the quotient of 1 by 0.
\<close>

theorem BuildSceneSphere_unguarded_counterexample:
  "BuildSceneSphere sample_externals point_scene =
     Inr (point_scene\<lparr>mSceneSphere :=
            \<lparr> mSceneCenter = Vec3f (Fin 1) (Fin 2) (Fin 3), mSceneRadius = Fin 0,
              mInvSceneRadiusSqr = PInf \<rparr>\<rparr>)
   \<and> fdiv (Fin 1) (Sqr (Fin 0)) = PInf"
proof -
  have g: "mGeometry point_scene = Some (GeometryList
     [Triangle (Vec3f (Fin 1) (Fin 2) (Fin 3)) (Vec3f (Fin 1) (Fin 2) (Fin 3))
        (Vec3f (Fin 1) (Fin 2) (Fin 3)) 5])"
    by (simp add: point_scene_def scene_with_fields)
  show ?thesis
    unfolding BuildSceneSphere_unfold [OF g point_grow]
    by (simp add: Sqr_def finf_def fsub_def rnd_0 rnd_small)
qed

text \<open>
  The empty list leaves the box at the two values it starts with. Their difference squared
  is beyond binary32: the radius is plus infinity and the inverse squared radius is 0.
\<close>

lemma sentinel_rounding:
  "rnd (- (12621774 * 2 ^ 96) + - (12621774 * 2 ^ 96)) = Fin (- (12621774 * 2 ^ 97))"
  "rnd (- (12621774 * 2 ^ 96) + 12621774 * 2 ^ 96) = Fin 0"
  "rnd (12621774 * 2 ^ 97 * (12621774 * 2 ^ 97)) = PInf"
  using rnd_exact [of "- (12621774 * 2 ^ 97)" "- 12621774" 97]
    rnd_cases [of 241 "12621774 * 2 ^ 97 * (12621774 * 2 ^ 97)" 218 9495567]
  by (simp_all add: rnd_0 finf_def)

lemma empty_list_grow:
  "geo_GrowBBox sample_externals (GeometryList [])
     (Vec3f1 (flit (10 ^ 36))) (Vec3f1 (flit (- (10 ^ 36))))
   = (Vec3f1 (Fin (12621774 * 2 ^ 96)), Vec3f1 (Fin (- (12621774 * 2 ^ 96))))"
  by (simp add: sample_fields flit_sentinel)

lemma BuildSceneSphere_empty_list:
  "BuildSceneSphere sample_externals (scene_with [] []) =
     Inr ((scene_with [] [])\<lparr>mSceneSphere :=
            \<lparr> mSceneCenter = Vec3f (Fin 0) (Fin 0) (Fin 0), mSceneRadius = PInf,
              mInvSceneRadiusSqr = Fin 0 \<rparr>\<rparr>)"
proof -
  have g: "mGeometry (scene_with [] []) = Some (GeometryList [])"
    by (simp add: scene_with_fields)
  show ?thesis
    unfolding BuildSceneSphere_unfold [OF g empty_list_grow]
    using sentinel_rounding
    by (simp add: Vec3f1_def Sqr_def finf_def fsub_def rnd_0)
qed

text \<open>
  Claim C7. \<open>BuildSceneSphere\<close> called again on the scene that a first call returned
  gives that same scene, so the centre and the radius of the second call are those of
  the first. A scene without geometry faults both times.
\<close>

theorem BuildSceneSphere_twice:
  "(case BuildSceneSphere X sc of Inl e \<Rightarrow> Inl e | Inr sc1 \<Rightarrow> BuildSceneSphere X sc1)
     = BuildSceneSphere X sc"
  by (auto simp: BuildSceneSphere_def Let_def split: option.splits prod.splits)

subsection \<open>\<open>LoadCornellBox\<close>\<close>

text \<open>\<open>LoadCornellBox\<close> as its first statement followed by its sections.\<close>

lemma LoadCornellBox_stages:
  "LoadCornellBox X aResolution aBoxMask sc =
     (if (aBoxMask AND BothLargeBalls) = BothLargeBalls then [both_balls_notice] else [],
      stage ((resolved_mask aBoxMask AND LightBackground) \<noteq> 0) load_light_background
        (stage ((resolved_mask aBoxMask AND LightPoint) \<noteq> 0) (load_light_point X)
          (stage ((resolved_mask aBoxMask AND LightSun) \<noteq> 0) load_light_sun
            (stage ((resolved_mask aBoxMask AND LightCeiling) \<noteq> 0) load_light_ceiling
              (before_lights X aResolution aBoxMask sc)))))"
  unfolding LoadCornellBox_def Let_def stage_def resolved_mask_def before_lights_def
  by (rule refl)

lemma before_lights_fields:
  "mLights (before_lights X r m sc) = mLights sc"
  "mMaterial2Light (before_lights X r m sc) = mMaterial2Light sc"
  "mGeometry (before_lights X r m sc)
     = Some (GeometryList (CornellBox_geometry (resolved_mask m)))"
  by (simp_all add: before_lights_def)

lemma load_light_geometry:
  "mGeometry (load_light_ceiling sc) = mGeometry sc"
  "mGeometry (load_light_sun sc) = mGeometry sc"
  "mGeometry (load_light_point X sc) = mGeometry sc"
  "mGeometry (load_light_background sc) = mGeometry sc"
  by (simp_all add: load_light_ceiling_def load_light_sun_def load_light_point_def
        load_light_background_def Let_def)

lemma stage_geometry:
  assumes "\<And>s. mGeometry (f s) = mGeometry s"
  shows "mGeometry (stage b f sc) = mGeometry sc"
  using assms by (simp add: stage_def)

lemma LoadCornellBox_geometry:
  "mGeometry (snd (LoadCornellBox X r m sc)) =
     Some (GeometryList (CornellBox_geometry (resolved_mask m)))"
  by (simp add: LoadCornellBox_stages stage_geometry load_light_geometry before_lights_fields)

text \<open>
  The sections for the sun, the point light and the background push one light and leave
  the index alone; the section for the ceiling cuts or fills the lights to two, sets both
  and inserts the two entries, which changes nothing when they are there already. So each
  section keeps the shape of the index, and so does \<open>LoadCornellBox\<close>, on a fresh scene
  and on a scene it has loaded before.
\<close>

lemma index_loaded_valid: "index_loaded sc \<Longrightarrow> Material2Light_valid sc"
  by (auto simp: index_loaded_def Material2Light_valid_def)

lemma index_loaded_fresh: "index_loaded (Scene_new X)"
  by (simp add: index_loaded_def Scene_new_def)

lemma index_loaded_append:
  assumes "index_loaded sc"
      and "mLights sc' = mLights sc @ ls"
      and "mMaterial2Light sc' = mMaterial2Light sc"
  shows "index_loaded sc'"
  using assms by (auto simp: index_loaded_def nth_append)

lemma index_loaded_ceiling: "index_loaded sc \<Longrightarrow> index_loaded (load_light_ceiling sc)"
  by (auto simp: index_loaded_def load_light_ceiling_def vector_resize_def Let_def)

lemma index_loaded_sun: "index_loaded sc \<Longrightarrow> index_loaded (load_light_sun sc)"
  by (rule index_loaded_append
        [where ls = "drop (length (mLights sc)) (mLights (load_light_sun sc))"])
     (simp_all add: load_light_sun_def Let_def)

lemma index_loaded_point: "index_loaded sc \<Longrightarrow> index_loaded (load_light_point X sc)"
  by (rule index_loaded_append
        [where ls = "drop (length (mLights sc)) (mLights (load_light_point X sc))"])
     (simp_all add: load_light_point_def Let_def)

lemma index_loaded_background:
  "index_loaded sc \<Longrightarrow> index_loaded (load_light_background sc)"
  by (rule index_loaded_append
        [where ls = "drop (length (mLights sc)) (mLights (load_light_background sc))"])
     (simp_all add: load_light_background_def Let_def)

lemma index_loaded_stage:
  assumes "\<And>s. index_loaded s \<Longrightarrow> index_loaded (f s)"
      and "index_loaded sc"
  shows "index_loaded (stage b f sc)"
  using assms by (simp add: stage_def)

lemma LoadCornellBox_keeps_index:
  assumes "index_loaded sc"
  shows "index_loaded (snd (LoadCornellBox X r m sc))"
proof -
  have "index_loaded (before_lights X r m sc)"
    using assms by (simp add: index_loaded_def before_lights_fields)
  then show ?thesis
    unfolding LoadCornellBox_stages snd_conv
    by (intro index_loaded_stage [OF index_loaded_background]
          index_loaded_stage [OF index_loaded_point] index_loaded_stage [OF index_loaded_sun]
          index_loaded_stage [OF index_loaded_ceiling])
qed

lemma LoadCornellBox_valid_fresh:
  "Material2Light_valid (snd (LoadCornellBox X r m (Scene_new X)))"
  by (intro index_loaded_valid LoadCornellBox_keeps_index index_loaded_fresh)

text \<open>
  Claim C8. After \<open>LoadCornellBox\<close> on a freshly constructed scene, with any resolution
  and any mask, every value of the material-to-light index is at least 0 and less than the
  number of lights, and no key of the index occurs twice.
\<close>

theorem LoadCornellBox_Material2Light:
  "(\<forall>kv \<in> set (mMaterial2Light (snd (LoadCornellBox X aResolution aBoxMask (Scene_new X)))).
      0 \<le> sint (snd kv)
      \<and> nat (sint (snd kv))
          < length (mLights (snd (LoadCornellBox X aResolution aBoxMask (Scene_new X)))))
   \<and> distinct (map fst
        (mMaterial2Light (snd (LoadCornellBox X aResolution aBoxMask (Scene_new X)))))"
  using LoadCornellBox_valid_fresh [of X aResolution aBoxMask]
  by (simp add: Material2Light_valid_def list_all_iff)

lemma Default_bits:
  "Default AND BothLargeBalls \<noteq> BothLargeBalls"
  "resolved_mask Default = Default"
  "Default AND LightCeiling \<noteq> 0"
  "Default AND LightSun = 0"
  "Default AND LightPoint = 0"
  "Default AND LightBackground = 0"
  by (simp_all add: resolved_mask_def Default_def BothLargeBalls_def LightCeiling_def
      LightSun_def LightPoint_def LightBackground_def BallLargeMirror_def BallLargeGlass_def
      BallMirror_def BallGlass_def)

lemma sample_box_index:
  "mMaterial2Light sample_box = [(0, 0), (1, 1)]"
  "length (mLights sample_box) = 2"
  by (simp_all add: sample_box_def LoadCornellBox_stages Default_bits stage_def
        load_light_ceiling_def vector_resize_def before_lights_fields Scene_new_def Let_def)

theorem LoadCornellBox_Material2Light_witness:
  "mMaterial2Light sample_box = [(0, 0), (1, 1)]
   \<and> length (mLights sample_box) = 2
   \<and> list_all (\<lambda>kv. 0 \<le> sint (snd kv) \<and> nat (sint (snd kv)) < length (mLights sample_box))
        (mMaterial2Light sample_box)
   \<and> distinct (map fst (mMaterial2Light sample_box))"
  using LoadCornellBox_Material2Light [of sample_externals "Vec2i 512 512" Default]
  by (simp add: sample_box_index flip: sample_box_def)

lemma both_balls_bits:
  assumes "(m AND BothLargeBalls) = BothLargeBalls"
  shows "resolved_mask m = m AND NOT BallLargeGlass"
    and "(m AND NOT BallLargeGlass) AND BallLargeMirror \<noteq> 0"
    and "(m AND NOT BallLargeGlass) AND BallLargeGlass = 0"
    and "(m AND NOT BallLargeGlass) AND BothLargeBalls \<noteq> BothLargeBalls"
proof -
  have a: "m AND 48 = 48"
    using assms by (simp add: BothLargeBalls_def BallLargeMirror_def BallLargeGlass_def)
  show "resolved_mask m = m AND NOT BallLargeGlass"
    using assms by (simp add: resolved_mask_def)
  have "m AND 16 = (m AND 48) AND 16" by (simp add: and.assoc)
  then have b: "m AND 16 = 16" unfolding a by simp
  have c: "(m AND NOT 32) AND 16 = m AND 16" by (simp add: and.assoc)
  show "(m AND NOT BallLargeGlass) AND BallLargeMirror \<noteq> 0"
    unfolding BallLargeGlass_def BallLargeMirror_def c b by simp
  show d: "(m AND NOT BallLargeGlass) AND BallLargeGlass = 0"
    unfolding BallLargeGlass_def by (simp add: and.assoc)
  show "(m AND NOT BallLargeGlass) AND BothLargeBalls \<noteq> BothLargeBalls"
  proof
    assume e: "(m AND NOT BallLargeGlass) AND BothLargeBalls = BothLargeBalls"
    have "((m AND NOT BallLargeGlass) AND BothLargeBalls) AND BallLargeGlass
            = ((m AND NOT BallLargeGlass) AND BallLargeGlass) AND BothLargeBalls"
      by (simp add: ac_simps)
    then have "BothLargeBalls AND BallLargeGlass = 0"
      unfolding e d by simp
    then show False
      by (simp add: BothLargeBalls_def BallLargeMirror_def BallLargeGlass_def)
  qed
qed

lemma large_balls_in_geometry:
  assumes "m AND BallLargeMirror \<noteq> 0" and "m AND BallLargeGlass = 0"
  shows "Sphere center largeRadius 6 \<in> set (CornellBox_geometry m)"
    and "Sphere center largeRadius 7 \<notin> set (CornellBox_geometry m)"
  using assms
  by (simp_all add: CornellBox_geometry_def largeRadius_def smallRadius_def flit_radii)

text \<open>
  Claim C9. When the mask asks for both large balls, \<open>LoadCornellBox\<close> prints one line,
  "Cannot have both large balls, using mirror" followed by a newline, and goes on as for
  the mask without the glass bit: it returns the scene that this mask gives, for which
  nothing is printed. The geometry of that scene holds the large mirror ball (material 6)
  and not the large glass ball (material 7). \<open>LoadCornellBox\<close> has no failing branch, so
  the setup completes.
\<close>

theorem LoadCornellBox_both_large_balls:
  assumes "(aBoxMask AND BothLargeBalls) = BothLargeBalls"
  shows "\<exists>sc' gs. LoadCornellBox X aResolution aBoxMask sc
               = ([''Cannot have both large balls, using mirror'' @ [CHR 0x0A]], sc')
           \<and> LoadCornellBox X aResolution (aBoxMask AND NOT BallLargeGlass) sc = ([], sc')
           \<and> mGeometry sc' = Some (GeometryList gs)
           \<and> Sphere center largeRadius 6 \<in> set gs
           \<and> Sphere center largeRadius 7 \<notin> set gs"
proof -
  let ?m = "aBoxMask AND NOT BallLargeGlass"
  note b = both_balls_bits [OF assms]
  have r: "resolved_mask ?m = ?m"
    using b(4) by (simp add: resolved_mask_def)
  have 1: "LoadCornellBox X aResolution aBoxMask sc
             = ([''Cannot have both large balls, using mirror'' @ [CHR 0x0A]],
                snd (LoadCornellBox X aResolution aBoxMask sc))"
    using assms by (simp add: LoadCornellBox_stages both_balls_notice_def)
  have 2: "LoadCornellBox X aResolution ?m sc
             = ([], snd (LoadCornellBox X aResolution aBoxMask sc))"
    using b(4) by (simp add: LoadCornellBox_stages r b(1) before_lights_def)
  have 3: "mGeometry (snd (LoadCornellBox X aResolution aBoxMask sc))
             = Some (GeometryList (CornellBox_geometry ?m))"
    by (simp add: LoadCornellBox_geometry b(1))
  show ?thesis
    using 1 2 3 large_balls_in_geometry [OF b(2) b(3)] by blast
qed

theorem LoadCornellBox_both_large_balls_witness:
  "(48 AND BothLargeBalls) = BothLargeBalls
   \<and> fst (LoadCornellBox sample_externals (Vec2i 512 512) 48 (Scene_new sample_externals))
       = [''Cannot have both large balls, using mirror'' @ [CHR 0x0A]]
   \<and> length (hd (fst (LoadCornellBox sample_externals (Vec2i 512 512) 48
                         (Scene_new sample_externals)))) = 43
   \<and> LoadCornellBox sample_externals (Vec2i 512 512) 16 (Scene_new sample_externals)
       = ([], snd (LoadCornellBox sample_externals (Vec2i 512 512) 48
                     (Scene_new sample_externals)))"
proof -
  have h: "((48 :: uint) AND BothLargeBalls) = BothLargeBalls"
    by (simp add: BothLargeBalls_def BallLargeMirror_def BallLargeGlass_def)
  have m: "(48 :: uint) AND NOT BallLargeGlass = 16"
    by (simp add: BallLargeGlass_def)
  show ?thesis
    using h LoadCornellBox_both_large_balls [OF h, of sample_externals "Vec2i 512 512"
        "Scene_new sample_externals"]
    by (auto simp: m)
qed

end
